theory Spec2Isabelle
  imports Complex_Main "HOL-Library.Sublist" "HOL-Library.Char_ord" "HOL-Library.List_Lexorder"
    "HOL-Library.Multiset"
begin

section \<open>Strings\<close>

text \<open>
  JavaScript strings are modelled as \<open>string\<close> (a list of characters). The operations
  below are the \<open>String.prototype\<close> methods the sources call, on that representation.
\<close>

text \<open>\<^verbatim>\<open>s.replaceAll(a, b)\<close> for single-character \<open>a\<close> and \<open>b\<close>.\<close>

definition replaceAll :: "char \<Rightarrow> char \<Rightarrow> string \<Rightarrow> string" where
  "replaceAll a b s = map (\<lambda>c. if c = a then b else c) s"

text \<open>
  \<^verbatim>\<open>s.split(sep)\<close> for a single-character separator: consecutive separators give empty
  pieces, and the empty string splits into one empty piece.
\<close>

fun split :: "char \<Rightarrow> string \<Rightarrow> string list" where
  "split sep [] = [[]]"
| "split sep (c # cs) =
     (if c = sep then [] # split sep cs
      else (case split sep cs of
              [] \<Rightarrow> [[c]]
            | w # ws \<Rightarrow> (c # w) # ws))"

text \<open>\<^verbatim>\<open>s.startsWith(c)\<close> for a single character.\<close>

fun startsWith :: "string \<Rightarrow> char \<Rightarrow> bool" where
  "startsWith [] c = False"
| "startsWith (x # xs) c = (x = c)"

text \<open>\<^verbatim>\<open>s.slice(1)\<close>.\<close>

definition slice1 :: "string \<Rightarrow> string" where
  "slice1 s = drop 1 s"

text \<open>
  \<^verbatim>\<open>s.trim()\<close> removes white space and line terminators at both ends. Of these, the
  characters of the model (code units below 256) hold the tab, the line feed, the vertical
  tab, the form feed, the carriage return, the space and the no-break space U+00A0.
\<close>

definition is_space :: "char \<Rightarrow> bool" where
  "is_space c = (of_char c \<in> {9, 10, 11, 12, 13, 32, 160 :: nat})"

definition trim :: "string \<Rightarrow> string" where
  "trim s = rev (dropWhile is_space (rev (dropWhile is_space s)))"

text \<open>\<^verbatim>\<open>s.replace(/^v/, '')\<close>\<close>

fun removeLeadingV :: "string \<Rightarrow> string" where
  "removeLeadingV [] = []"
| "removeLeadingV (c # cs) = (if c = CHR ''v'' then cs else c # cs)"

text \<open>
  \<^verbatim>\<open>s.replace(/pat/g, '')\<close> for a literal, non-empty \<open>pat\<close>: the occurrences are found
  from left to right, without overlap, and what remains is not searched again. The number
  \<open>skip\<close> counts the characters of the current occurrence still to be dropped.
\<close>

fun deleteAll :: "string \<Rightarrow> nat \<Rightarrow> string \<Rightarrow> string" where
  "deleteAll pat skip [] = []"
| "deleteAll pat skip (c # cs) =
     (if skip > 0 then deleteAll pat (skip - 1) cs
      else if prefix pat (c # cs) then deleteAll pat (length pat - 1) cs
      else c # deleteAll pat 0 cs)"

text \<open>\<^verbatim>\<open>[...new Set(xs)]\<close>: the elements are added one by one to the set, which keeps
  the order of insertion and ignores an element it already has.\<close>

fun setAddAll :: "'a list \<Rightarrow> 'a list \<Rightarrow> 'a list" where
  "setAddAll seen [] = seen"
| "setAddAll seen (x # xs) = (if x \<in> set seen then setAddAll seen xs else setAddAll (seen @ [x]) xs)"

definition newSet :: "'a list \<Rightarrow> 'a list" where
  "newSet xs = setAddAll [] xs"

text \<open>\<^verbatim>\<open>.\<close> in a regular expression: any character but a line terminator.\<close>

definition dot_char :: "char \<Rightarrow> bool" where
  "dot_char c = (of_char c \<notin> {10, 13 :: nat})"

text \<open>The character classes of the regular expressions in the sources.\<close>

definition is_lower :: "char \<Rightarrow> bool" where
  "is_lower c = (CHR ''a'' \<le> c \<and> c \<le> CHR ''z'')"

definition is_upper :: "char \<Rightarrow> bool" where
  "is_upper c = (CHR ''A'' \<le> c \<and> c \<le> CHR ''Z'')"

definition is_digit :: "char \<Rightarrow> bool" where
  "is_digit c = (CHR ''0'' \<le> c \<and> c \<le> CHR ''9'')"

text \<open>\<^verbatim>\<open>[a-z0-9-]\<close>\<close>

definition tag_char :: "char \<Rightarrow> bool" where
  "tag_char c = (is_lower c \<or> is_digit c \<or> c = CHR ''-'')"

text \<open>\<^verbatim>\<open>[a-zA-Z0-9-]\<close>\<close>

definition owner_char :: "char \<Rightarrow> bool" where
  "owner_char c = (is_lower c \<or> is_upper c \<or> is_digit c \<or> c = CHR ''-'')"

text \<open>\<^verbatim>\<open>[a-zA-Z0-9-_.]\<close>, which is also \<^verbatim>\<open>[\w.-]\<close>\<close>

definition repo_char :: "char \<Rightarrow> bool" where
  "repo_char c = (is_lower c \<or> is_upper c \<or> is_digit c \<or> c = CHR ''-'' \<or> c = CHR ''_'' \<or> c = CHR ''.'')"

text \<open>\<^verbatim>\<open>[a-z+]\<close> under the flag \<^verbatim>\<open>i\<close>\<close>

definition scheme_char :: "char \<Rightarrow> bool" where
  "scheme_char c = (is_lower c \<or> is_upper c \<or> c = CHR ''+'')"

section \<open>Data model\<close>

text \<open>The records of \<^verbatim>\<open>package.ts\<close>, with the fields the fetchers fill in.\<close>

record Version =
  version :: string
  releasedAt :: string
  source :: string
  packageManager :: string
  platformVersionRequirement :: "string option"

record Contributor =
  username :: string
  contributions :: int

record Package =
  identifier' :: string
  name :: string
  description :: string
  author :: string
  tags :: "string list"
  avatarUrl :: string
  projectUrl :: string
  hotness :: int
  updated :: string
  contributors :: "Contributor list"
  versions :: "Version list"

text \<open>
  A thrown value: an \<^verbatim>\<open>http-errors\<close> error with its status code and message, or any
  other exception with its message.
\<close>

datatype exn = HttpError int string | Thrown string

section \<open>The search of \<^verbatim>\<open>RedisClient\<close>\<close>

subsection \<open>The query builder\<close>

text \<open>
  The \<^verbatim>\<open>redis-om\<close> query builder is an object holding a root condition, undefined until
  the first condition is added; a search without a root condition selects every record.
  It is modelled by its state: \<open>None\<close> is the undefined root.

  \<^item> \<^verbatim>\<open>s.or(field).matches(v)\<close> and \<^verbatim>\<open>s.or(field).contains(v)\<close> make the new condition
    the root when there is none, and the disjunction of the root and the condition
    otherwise;
  \<^item> \<^verbatim>\<open>s.and(fn)\<close> and \<^verbatim>\<open>s.or(fn)\<close> run \<open>fn\<close> on a fresh builder and combine its root
    with the root of \<open>s\<close> in the same way; the library throws when \<open>fn\<close> returns a
    builder without a root.
\<close>

datatype field = Name | Description | Author | Tags

datatype cond = Matches field string | Contains field string

datatype whereTree = Cond cond | WhereAnd whereTree whereTree | WhereOr whereTree whereTree

type_synonym Search = "whereTree option"

definition orField :: "Search \<Rightarrow> cond \<Rightarrow> Search" where
  "orField s c = (case s of None \<Rightarrow> Some (Cond c) | Some w \<Rightarrow> Some (WhereOr w (Cond c)))"

definition noRootWhere :: exn where
  "noRootWhere = Thrown ''Sub-search without a root where was somehow defined.''"

definition andFn :: "Search \<Rightarrow> Search \<Rightarrow> exn + Search" where
  "andFn s sub =
     (case sub of
        None \<Rightarrow> Inl noRootWhere
      | Some w' \<Rightarrow> Inr (case s of None \<Rightarrow> Some w' | Some w \<Rightarrow> Some (WhereAnd w w')))"

definition orFn :: "Search \<Rightarrow> Search \<Rightarrow> exn + Search" where
  "orFn s sub =
     (case sub of
        None \<Rightarrow> Inl noRootWhere
      | Some w' \<Rightarrow> Inr (case s of None \<Rightarrow> Some w' | Some w \<Rightarrow> Some (WhereOr w w')))"

subsection \<open>From the query string to the builder state\<close>

text \<open>\<^verbatim>\<open>/^[a-z0-9-]+:[a-z0-9-]+$/.test(qItem)\<close>\<close>

definition tagRegexTest :: "string \<Rightarrow> bool" where
  "tagRegexTest s =
     (let key = takeWhile tag_char s; rest = dropWhile tag_char s
      in key \<noteq> [] \<and>
         (case rest of
            [] \<Rightarrow> False
          | c # val \<Rightarrow> c = CHR '':'' \<and> val \<noteq> [] \<and> list_all tag_char val))"

definition qList :: "string \<Rightarrow> string list" where
  "qList q = filter (\<lambda>item. length item > 0) (split CHR '' '' (replaceAll CHR ''*'' CHR '' '' q))"

definition optionalQList :: "string \<Rightarrow> string list" where
  "optionalQList q = filter (\<lambda>item. \<not> startsWith item CHR ''+'') (qList q)"

definition exactQList :: "string \<Rightarrow> string list" where
  "exactQList q = map slice1 (filter (\<lambda>item. startsWith item CHR ''+'') (qList q))"

text \<open>The loop over \<^verbatim>\<open>exactQList\<close>: each item adds one conjunct to \<^verbatim>\<open>query\<close>.\<close>

fun exactLoop :: "Search \<Rightarrow> string list \<Rightarrow> exn + Search" where
  "exactLoop query [] = Inr query"
| "exactLoop query (qItem # rest) =
     (case (if tagRegexTest qItem then
              andFn query (orField None (Contains Tags qItem))
            else
              (let pattern = ''*'' @ qItem @ ''*''
               in andFn query
                    (orField (orField (orField (orField None
                       (Matches Name pattern))
                       (Matches Description pattern))
                       (Matches Author pattern))
                       (Contains Tags pattern))))
      of Inl e \<Rightarrow> Inl e
       | Inr query' \<Rightarrow> exactLoop query' rest)"

text \<open>The loop over \<^verbatim>\<open>optionalQList\<close>, inside the callback: each item adds one disjunct
  to \<^verbatim>\<open>subQuery\<close>.\<close>

fun optionalLoop :: "Search \<Rightarrow> string list \<Rightarrow> exn + Search" where
  "optionalLoop subQuery [] = Inr subQuery"
| "optionalLoop subQuery (qItem # rest) =
     (case (if tagRegexTest qItem then
              orFn subQuery (orField None (Contains Tags qItem))
            else
              (let pattern = ''*'' @ qItem @ ''*''
               in orFn subQuery
                    (orField (orField (orField (orField None
                       (Matches Name pattern))
                       (Matches Description pattern))
                       (Matches Author pattern))
                       (Contains Tags pattern))))
      of Inl e \<Rightarrow> Inl e
       | Inr subQuery' \<Rightarrow> optionalLoop subQuery' rest)"

text \<open>The part of \<^verbatim>\<open>search\<close> that builds \<^verbatim>\<open>query\<close> from \<^verbatim>\<open>q\<close>.\<close>

definition buildQuery :: "string \<Rightarrow> exn + Search" where
  "buildQuery q =
     (if length q > 1 then
        (case exactLoop None (exactQList q) of
           Inl e \<Rightarrow> Inl e
         | Inr query \<Rightarrow>
             if length (optionalQList q) > 0 then
               (case optionalLoop None (optionalQList q) of
                  Inl e \<Rightarrow> Inl e
                | Inr subQuery \<Rightarrow> andFn query subQuery)
             else Inr query)
      else Inr None)"

subsection \<open>Evaluation by the index\<close>

text \<open>
  The index decides which records satisfy a single condition; that decision is the
  parameter \<open>sat\<close>. Conjunctions and disjunctions are evaluated as such, and a builder
  without a root selects every record.
\<close>

fun holds :: "(cond \<Rightarrow> 'p \<Rightarrow> bool) \<Rightarrow> whereTree \<Rightarrow> 'p \<Rightarrow> bool" where
  "holds sat (Cond c) p = sat c p"
| "holds sat (WhereAnd a b) p = (holds sat a p \<and> holds sat b p)"
| "holds sat (WhereOr a b) p = (holds sat a p \<or> holds sat b p)"

definition selects :: "(cond \<Rightarrow> 'p \<Rightarrow> bool) \<Rightarrow> Search \<Rightarrow> 'p \<Rightarrow> bool" where
  "selects sat s p = (case s of None \<Rightarrow> True | Some w \<Rightarrow> holds sat w p)"

subsection \<open>The predicate as the specification describes it\<close>

text \<open>
  A tag-qualified term has the form \<open>key:value\<close> with lowercase letters, digits and hyphens
  only on both sides of the colon, both sides non-empty.
\<close>

definition tagQualified :: "string \<Rightarrow> bool" where
  "tagQualified t =
     (\<exists>k v. t = k @ '':'' @ v \<and> k \<noteq> [] \<and> v \<noteq> [] \<and>
        (\<forall>c \<in> set k. is_lower c \<or> is_digit c \<or> c = CHR ''-'') \<and>
        (\<forall>c \<in> set v. is_lower c \<or> is_digit c \<or> c = CHR ''-''))"

text \<open>
  The condition of one token: containment of the literal term in \<open>tags\<close> for a
  tag-qualified term; for a free-text term, a match of \<open>*term*\<close> against \<open>name\<close>,
  \<open>description\<close> or \<open>author\<close>, or containment of \<open>*term*\<close> in \<open>tags\<close>.
\<close>

definition freeTextTree :: "string \<Rightarrow> whereTree" where
  "freeTextTree t =
     WhereOr (WhereOr (WhereOr
       (Cond (Matches Name (''*'' @ t @ ''*'')))
       (Cond (Matches Description (''*'' @ t @ ''*''))))
       (Cond (Matches Author (''*'' @ t @ ''*''))))
       (Cond (Contains Tags (''*'' @ t @ ''*'')))"

definition termTree :: "string \<Rightarrow> whereTree" where
  "termTree t = (if tagQualified t then Cond (Contains Tags t) else freeTextTree t)"

definition termPredicate :: "(cond \<Rightarrow> 'p \<Rightarrow> bool) \<Rightarrow> string \<Rightarrow> 'p \<Rightarrow> bool" where
  "termPredicate sat t p =
     (if tagQualified t then sat (Contains Tags t) p
      else sat (Matches Name (''*'' @ t @ ''*'')) p \<or>
           sat (Matches Description (''*'' @ t @ ''*'')) p \<or>
           sat (Matches Author (''*'' @ t @ ''*'')) p \<or>
           sat (Contains Tags (''*'' @ t @ ''*'')) p)"

text \<open>Conjunction and disjunction of a builder state with one more condition, and the
  conjunction of a list of conditions (no condition at all for the empty list).\<close>

definition conj :: "Search \<Rightarrow> whereTree \<Rightarrow> Search" where
  "conj s w = (case s of None \<Rightarrow> Some w | Some v \<Rightarrow> Some (WhereAnd v w))"

definition disj :: "Search \<Rightarrow> whereTree \<Rightarrow> Search" where
  "disj s w = (case s of None \<Rightarrow> Some w | Some v \<Rightarrow> Some (WhereOr v w))"

definition allOf :: "whereTree list \<Rightarrow> Search" where
  "allOf ws = foldl conj None ws"

text \<open>
  The tokens of a query string as the specification describes them: the wildcard \<open>*\<close>
  counts as a space, the string is cut at the spaces, and empty pieces are dropped. So the
  tokens are the maximal runs of characters other than the space and \<open>*\<close>, from left to
  right; \<open>tokensFrom w s\<close> reads \<open>s\<close> with the run \<open>w\<close> begun. The required tokens are
  those that begin with \<open>+\<close>, without that \<open>+\<close>; the optional tokens are the others.
\<close>

fun tokensFrom :: "string \<Rightarrow> string \<Rightarrow> string list" where
  "tokensFrom w [] = (if w = [] then [] else [w])"
| "tokensFrom w (c # cs) =
     (if c = CHR '' '' \<or> c = CHR ''*''
      then (if w = [] then tokensFrom [] cs else w # tokensFrom [] cs)
      else tokensFrom (w @ [c]) cs)"

definition queryTokens :: "string \<Rightarrow> string list" where
  "queryTokens q = tokensFrom [] q"

definition requiredTokens :: "string \<Rightarrow> string list" where
  "requiredTokens q = [cs. c # cs \<leftarrow> queryTokens q, c = CHR ''+'']"

definition optionalTokens :: "string \<Rightarrow> string list" where
  "optionalTokens q = [t. t \<leftarrow> queryTokens q, take 1 t \<noteq> ''+'']"

subsection \<open>Pagination\<close>

datatype sortField = Hotness | Updated

datatype sortOrder = Asc | Desc

fun sortFieldMap :: "sortField \<Rightarrow> string" where
  "sortFieldMap Hotness = ''hotness''"
| "sortFieldMap Updated = ''updated''"

fun sortOrderMap :: "sortOrder \<Rightarrow> string" where
  "sortOrderMap Asc = ''ASC''"
| "sortOrderMap Desc = ''DESC''"

text \<open>
  The index as \<^verbatim>\<open>search\<close> uses it: the stored records, the evaluation of a single
  condition, and the ordering \<^verbatim>\<open>sortBy(field, order)\<close> of a result set.
\<close>

record Index =
  records :: "Package list"
  condSat :: "cond \<Rightarrow> Package \<Rightarrow> bool"
  sortBy :: "string \<Rightarrow> string \<Rightarrow> Package list \<Rightarrow> Package list"

record SearchResult =
  packages :: "Package list"
  pageCount :: int

text \<open>\<^verbatim>\<open>query.count()\<close>\<close>

definition count :: "Index \<Rightarrow> Search \<Rightarrow> int" where
  "count ix query = int (length (filter (selects (condSat ix) query) (records ix)))"

text \<open>\<^verbatim>\<open>query.sortBy(field, order).return.page(offset, count)\<close>\<close>

definition returnPage :: "Index \<Rightarrow> Search \<Rightarrow> string \<Rightarrow> string \<Rightarrow> int \<Rightarrow> int \<Rightarrow> Package list" where
  "returnPage ix query fld ord offset cnt =
     take (nat cnt) (drop (nat offset)
       (sortBy ix fld ord (filter (selects (condSat ix) query) (records ix))))"

text \<open>
  \<^verbatim>\<open>search\<close>. The numbers are integers. With \<open>perPage < 1\<close> the source divides by zero or
  gets a negative page count, and with \<open>page < 1\<close> it hands a negative offset to the
  index; the model covers neither and says so with \<open>Inl outsideModel\<close>. The call of
  \<^verbatim>\<open>createIndex\<close>, which leaves the records as they are, is not part of the model.
\<close>

definition outsideModel :: exn where
  "outsideModel = Thrown ''perPage < 1 or page < 1''"

definition search :: "Index \<Rightarrow> string \<Rightarrow> int \<Rightarrow> int \<Rightarrow> sortField \<Rightarrow> sortOrder \<Rightarrow> exn + SearchResult" where
  "search ix q perPage page srt ord =
     (if perPage < 1 \<or> page < 1 then Inl outsideModel
      else
        let offset = (page - 1) * perPage in
        case buildQuery q of
          Inl e \<Rightarrow> Inl e
        | Inr query \<Rightarrow>
            let pageCount = \<lceil>real_of_int (count ix query) / real_of_int perPage\<rceil>;
                entities = returnPage ix query (sortFieldMap srt) (sortOrderMap ord) offset perPage
            in Inr \<lparr>packages = entities, pageCount = pageCount\<rparr>)"

subsection \<open>A reference index\<close>

text \<open>
  Modelled from the spec: the evaluation of a single condition by the index, which is an
  external store. A pattern \<open>*term*\<close> matches a text that contains \<open>term\<close>, without
  regard to case for \<open>matches\<close>; a literal is contained in \<open>tags\<close> when it is one of the
  tags. Only concrete evaluations use this definition: the theorems about the search hold
  for every evaluation of single conditions.
\<close>

definition toLowerCase :: "string \<Rightarrow> string" where
  "toLowerCase s = map (\<lambda>c. if is_upper c then char_of (of_char c + (32::nat)) else c) s"

definition stripStars :: "string \<Rightarrow> string" where
  "stripStars s =
     (let a = (if startsWith s CHR ''*'' then drop 1 s else s)
      in if a \<noteq> [] \<and> last a = CHR ''*'' then butlast a else a)"

fun fieldValues :: "field \<Rightarrow> Package \<Rightarrow> string list" where
  "fieldValues Name p = [name p]"
| "fieldValues Description p = [description p]"
| "fieldValues Author p = [author p]"
| "fieldValues Tags p = tags p"

fun indexSat :: "cond \<Rightarrow> Package \<Rightarrow> bool" where
  "indexSat (Matches f pat) p =
     list_ex (\<lambda>v. sublist (toLowerCase (stripStars pat)) (toLowerCase v)) (fieldValues f p)"
| "indexSat (Contains f pat) p =
     (if startsWith pat CHR ''*'' then list_ex (\<lambda>v. sublist (stripStars pat) v) (fieldValues f p)
      else pat \<in> set (fieldValues f p))"

definition demoPackage :: Package where
  "demoPackage =
     \<lparr>identifier' = ''github.com/futrime/better-things'',
      name = ''Better Things'',
      description = ''More blocks'',
      author = ''futrime'',
      tags = [''platform:levilamina'', ''type:mod''],
      avatarUrl = ''https://avatars.githubusercontent.com/futrime'',
      projectUrl = ''https://github.com/futrime/better-things'',
      hotness = 12,
      updated = ''2024-01-02T00:00:00.000Z'',
      contributors = [\<lparr>username = ''futrime'', contributions = 3\<rparr>],
      versions = [\<lparr>version = ''1.0.0'', releasedAt = ''2024-01-02T00:00:00.000Z'',
                   source = ''github'', packageManager = ''lip'',
                   platformVersionRequirement = Some ''0.13.x''\<rparr>]\<rparr>"

definition demoSortBy :: "string \<Rightarrow> string \<Rightarrow> Package list \<Rightarrow> Package list" where
  "demoSortBy fld ord xs =
     (let asc = (if fld = ''hotness'' then sort_key hotness xs else sort_key updated xs)
      in if ord = ''ASC'' then asc else rev asc)"

definition demoIndex :: Index where
  "demoIndex = \<lparr>records = replicate 25 demoPackage, condSat = indexSat, sortBy = demoSortBy\<rparr>"

section \<open>The fetchers\<close>

subsection \<open>What the fetchers read\<close>

text \<open>
  The values the fetchers receive from outside, with the fields they read. A value decoded
  from JSON or TOML has the type the source casts it to.
\<close>

record RepoId =
  owner :: string
  repo :: string

record Response =
  ok :: bool
  status :: int
  statusText :: string
  body :: string

record Repository =
  topics :: "string list option"
  stargazers_count :: int
  owner_login :: string

record RepoContributor =
  login :: "string option"
  contributions' :: int

record Release =
  tag_name :: string
  published_at :: "string option"
  created_at :: string

text \<open>
  \<^verbatim>\<open>Tooth\<close>: \<open>info\<close> is flattened, and of \<open>dependencies\<close> and \<open>prerequisites\<close> only the
  entry for \<^verbatim>\<open>github.com/LiteLDev/LeviLamina\<close> is kept, absent when the object or the
  entry is.
\<close>

record Tooth =
  info_name :: string
  info_description :: string
  info_tags :: "string list"
  info_avatar_url :: "string option"
  dependencies_LeviLamina :: "string option"
  prerequisites_LeviLamina :: "string option"

record GoProxyVersion =
  Version' :: string
  Time :: string

record PythonProjectMetadata =
  project_name :: string
  project_description :: "string option"
  project_keywords :: "string list option"

text \<open>\<^verbatim>\<open>PypiPackageMetadata\<close>: the entries of \<open>releases\<close> in the order of
  \<^verbatim>\<open>Object.keys\<close>, each with the \<^verbatim>\<open>upload_time_iso_8601\<close> of its files.\<close>

record PypiPackageMetadata =
  releases :: "(string \<times> string list) list"

text \<open>
  The world outside the fetchers: the network (\<^verbatim>\<open>fetch\<close>, which rejects or resolves to a
  response), the methods inherited from \<^verbatim>\<open>GitHubFetcher\<close>, the decoders of response
  bodies, \<^verbatim>\<open>new Date(s).toISOString()\<close> (which throws on an invalid date), and
  \<^verbatim>\<open>normalizePackage\<close> of \<^verbatim>\<open>package.ts\<close>. Discovery yields a finite sequence of
  candidates and may then fail.

  \<^verbatim>\<open>Promise.all\<close> rejects with the reason of the promise that rejects first in time, which
  the network decides: \<open>firstRejected\<close> gives, for the \<^verbatim>\<open>Promise.all\<close> of \<^verbatim>\<open>fetchPackage\<close>
  (second argument empty) and for the one of \<^verbatim>\<open>fetchVersions\<close> at a line of the proxy's list
  (second argument that line), the position of that promise among those that reject.
\<close>

record World =
  globalFetch :: "string \<Rightarrow> exn + Response"
  searchForRepo :: "string \<Rightarrow> RepoId list \<times> exn option"
  getRepo :: "RepoId \<Rightarrow> exn + Repository"
  listRepoContributors :: "RepoId \<Rightarrow> exn + RepoContributor list"
  searchForRepositories :: "string \<Rightarrow> RepoId list \<times> exn option"
  fetchRepository :: "RepoId \<Rightarrow> exn + Repository"
  fetchRepositoryContributors :: "RepoId \<Rightarrow> exn + RepoContributor list"
  fetchRepositoryVersions :: "RepoId \<Rightarrow> exn + Release list"
  jsonTooth :: "string \<Rightarrow> exn + Tooth"
  jsonGoProxyVersion :: "string \<Rightarrow> exn + GoProxyVersion"
  jsonPypiPackageMetadata :: "string \<Rightarrow> exn + PypiPackageMetadata"
  tomlParse :: "string \<Rightarrow> exn + PythonProjectMetadata"
  toISOString :: "string \<Rightarrow> exn + string"
  normalizePackage :: "Package \<Rightarrow> Package"
  firstRejected :: "RepoId \<Rightarrow> string \<Rightarrow> nat"

text \<open>
  An entry of the error log: the message and the error given to \<^verbatim>\<open>consola.error\<close>.
  Messages of other levels are not recorded. The log is a multiset: \<^verbatim>\<open>fetchVersions\<close> runs
  on after the \<^verbatim>\<open>Promise.all\<close> that holds it has rejected, so its entries and those of
  \<^verbatim>\<open>fetch\<close> come in an order that the network decides.
\<close>

type_synonym ErrorLog = "(string \<times> exn) multiset"

text \<open>The reason with which a \<^verbatim>\<open>Promise.all\<close> rejects: \<open>rejectionOf\<close> collects the reasons of
  the promises that reject, in the order of the array, and \<open>rejectionAt\<close> takes the one that
  comes first in time.\<close>

fun rejectionOf :: "exn + 'a \<Rightarrow> exn list" where
  "rejectionOf (Inl e) = [e]"
| "rejectionOf (Inr x) = []"

definition rejectionAt :: "nat \<Rightarrow> exn list \<Rightarrow> exn" where
  "rejectionAt k rejs = rejs ! (k mod length rejs)"

subsection \<open>\<^verbatim>\<open>LeviLaminaFetcher\<close>\<close>

definition escapeForGoProxy :: "string \<Rightarrow> string" where
  "escapeForGoProxy s =
     concat (map (\<lambda>c. if is_upper c then [CHR ''!'', char_of (of_char c + (32::nat))] else [c]) s)"

definition fetchTooth :: "World \<Rightarrow> RepoId \<Rightarrow> string \<Rightarrow> exn + Tooth option" where
  "fetchTooth w r ref =
     (let url = ''https://raw.githubusercontent.com/'' @ owner r @ ''/'' @ repo r @ ''/'' @ ref @ ''/tooth.json''
      in case globalFetch w url of
           Inl e \<Rightarrow> Inl e
         | Inr response \<Rightarrow>
             if \<not> ok response then Inr None
             else (case jsonTooth w (body response) of
                     Inl e \<Rightarrow> Inl e
                   | Inr data \<Rightarrow> Inr (Some data)))"

definition fetchGoProxyVersion :: "World \<Rightarrow> RepoId \<Rightarrow> string \<Rightarrow> exn + GoProxyVersion option" where
  "fetchGoProxyVersion w r goproxyVersionStr =
     (let url = ''https://goproxy.io/github.com/'' @ escapeForGoProxy (owner r) @ ''/'' @
                escapeForGoProxy (repo r) @ ''/@v/'' @ goproxyVersionStr @ ''.info''
      in case globalFetch w url of
           Inl e \<Rightarrow> Inl e
         | Inr response \<Rightarrow>
             if \<not> ok response then Inr None
             else (case jsonGoProxyVersion w (body response) of
                     Inl e \<Rightarrow> Inl e
                   | Inr data \<Rightarrow> Inr (Some data)))"

text \<open>\<^verbatim>\<open>a ?? b ?? ''\<close>\<close>

definition requirementOf :: "Tooth \<Rightarrow> string" where
  "requirementOf t =
     (case dependencies_LeviLamina t of
        Some d \<Rightarrow> d
      | None \<Rightarrow> (case prerequisites_LeviLamina t of Some p \<Rightarrow> p | None \<Rightarrow> []))"

text \<open>The body of the \<^verbatim>\<open>try\<close> block in \<^verbatim>\<open>fetchVersions\<close>: the version record of one line of
  the proxy's list, \<open>None\<close> for \<^verbatim>\<open>continue\<close>, \<open>Inl\<close> for a thrown error.\<close>

definition versionOf :: "World \<Rightarrow> RepoId \<Rightarrow> string \<Rightarrow> exn + Version option" where
  "versionOf w r goproxyVersionStr =
     (let versionStr = deleteAll ''+incompatible'' 0 (removeLeadingV goproxyVersionStr);
          p1 = fetchGoProxyVersion w r goproxyVersionStr;
          p2 = fetchTooth w r (''v'' @ versionStr);
          rejected = rejectionAt (firstRejected w r goproxyVersionStr)
                       (rejectionOf p1 @ rejectionOf p2)
      in case p1 of
           Inl e \<Rightarrow> Inl rejected
         | Inr goproxyResp \<Rightarrow>
            (case p2 of
               Inl e \<Rightarrow> Inl rejected
             | Inr toothResp \<Rightarrow>
                (case (goproxyResp, toothResp) of
                   (Some g, Some t) \<Rightarrow>
                     (case toISOString w (Time g) of
                        Inl e \<Rightarrow> Inl e
                      | Inr isoStr \<Rightarrow>
                          Inr (Some \<lparr>version = versionStr,
                                     releasedAt = isoStr,
                                     source = ''github'',
                                     packageManager = ''lip'',
                                     platformVersionRequirement = Some (requirementOf t)\<rparr>))
                 | _ \<Rightarrow> Inr None)))"

text \<open>The loop of \<^verbatim>\<open>fetchVersions\<close>, with \<^verbatim>\<open>versionList\<close> and the error log as state.
  The iterations follow one another, each awaited before the next.\<close>

fun versionLoop :: "World \<Rightarrow> RepoId \<Rightarrow> Version list \<Rightarrow> ErrorLog \<Rightarrow> string list \<Rightarrow> Version list \<times> ErrorLog" where
  "versionLoop w r versionList lg [] = (versionList, lg)"
| "versionLoop w r versionList lg (goproxyVersionStr # rest) =
     (case versionOf w r goproxyVersionStr of
        Inl e \<Rightarrow>
          versionLoop w r versionList
            (add_mset (''Failed to fetch version '' @ goproxyVersionStr @ '' for package '' @
                       owner r @ ''/'' @ repo r @ '':'', e) lg) rest
      | Inr None \<Rightarrow> versionLoop w r versionList lg rest
      | Inr (Some v) \<Rightarrow> versionLoop w r (versionList @ [v]) lg rest)"

definition goproxyVersionStrList :: "string \<Rightarrow> string list" where
  "goproxyVersionStrList text =
     filter (\<lambda>line. length line > 0) (map trim (split (char_of (10::nat)) text))"

definition fetchVersions :: "World \<Rightarrow> RepoId \<Rightarrow> exn + Version list \<times> ErrorLog" where
  "fetchVersions w r =
     (let url = ''https://goproxy.io/github.com/'' @ escapeForGoProxy (owner r) @ ''/'' @
                escapeForGoProxy (repo r) @ ''/@v/list''
      in case globalFetch w url of
           Inl e \<Rightarrow> Inl e
         | Inr response \<Rightarrow> Inr (versionLoop w r [] {#} (goproxyVersionStrList (body response))))"

text \<open>\<^verbatim>\<open>/^(?:[a-z+]+:)?\//i.test(avatarUrl)\<close>\<close>

definition absoluteUrlTest :: "string \<Rightarrow> bool" where
  "absoluteUrlTest s =
     (startsWith s CHR ''/'' \<or>
      (takeWhile scheme_char s \<noteq> [] \<and> prefix '':/'' (dropWhile scheme_char s)))"

text \<open>\<^verbatim>\<open>githubUrlRegex.exec(avatarUrl)\<close>: the three groups of a match.\<close>

definition githubUrlRegexExec :: "string \<Rightarrow> (string \<times> string \<times> string) option" where
  "githubUrlRegexExec s =
     (if prefix ''https://github.com/'' s then
        let r1 = drop (length ''https://github.com/'') s;
            g1 = takeWhile owner_char r1;
            r2 = dropWhile owner_char r1
        in if g1 \<noteq> [] \<and> startsWith r2 CHR ''/'' then
             let r3 = drop 1 r2;
                 g2 = takeWhile repo_char r3;
                 r4 = dropWhile repo_char r3
             in if g2 \<noteq> [] \<and> prefix ''/blob/'' r4 then
                  let g3 = takeWhile dot_char (drop (length ''/blob/'') r4)
                  in if g3 \<noteq> [] then Some (g1, g2, g3) else None
                else None
           else None
      else None)"

definition avatarUrlOf :: "RepoId \<Rightarrow> Tooth \<Rightarrow> string" where
  "avatarUrlOf r tooth =
     (let avatarUrl0 = (case info_avatar_url tooth of
                          Some u \<Rightarrow> u
                        | None \<Rightarrow> ''https://avatars.githubusercontent.com/'' @ owner r);
          avatarUrl1 = (if \<not> absoluteUrlTest avatarUrl0
                        then ''https://raw.githubusercontent.com/'' @ owner r @ ''/'' @ repo r @
                             ''/HEAD/'' @ avatarUrl0
                        else avatarUrl0)
      in case githubUrlRegexExec avatarUrl1 of
           Some (g1, g2, g3) \<Rightarrow> ''https://raw.githubusercontent.com/'' @ g1 @ ''/'' @ g2 @ ''/'' @ g3
         | None \<Rightarrow> avatarUrl1)"

definition toContributor :: "RepoContributor \<Rightarrow> Contributor" where
  "toContributor contributor =
     \<lparr>username = (case login contributor of Some l \<Rightarrow> l | None \<Rightarrow> []),
      contributions = contributions' contributor\<rparr>"

text \<open>The value of \<^verbatim>\<open>packageInfo\<close> in \<^verbatim>\<open>LeviLaminaFetcher.fetchPackage\<close>.\<close>

definition LeviLaminaFetcher_packageInfo ::
    "RepoId \<Rightarrow> Repository \<Rightarrow> RepoContributor list \<Rightarrow> Tooth \<Rightarrow> Version list \<Rightarrow> Package" where
  "LeviLaminaFetcher_packageInfo r repository repositoryContributors tooth versions0 =
     \<lparr>identifier' = ''github.com/'' @ owner r @ ''/'' @ repo r,
      name = info_name tooth,
      description = info_description tooth,
      author = owner r,
      tags = [''platform:levilamina''] @ info_tags tooth @
             (case topics repository of Some ts \<Rightarrow> ts | None \<Rightarrow> []),
      avatarUrl = avatarUrlOf r tooth,
      projectUrl = ''https://github.com/'' @ owner r @ ''/'' @ repo r,
      hotness = stargazers_count repository,
      updated = [],
      contributors = map toContributor repositoryContributors,
      versions = versions0\<rparr>"

text \<open>
  \<^verbatim>\<open>LeviLaminaFetcher.fetchPackage\<close>. The four promises of \<^verbatim>\<open>Promise.all\<close> are all started
  and run to their end; when some reject, \<^verbatim>\<open>fetchPackage\<close> rejects with the reason of the
  first to do so. What \<^verbatim>\<open>fetchVersions\<close> logs is logged whatever the outcome.
\<close>

definition LeviLaminaFetcher_fetchPackage :: "World \<Rightarrow> RepoId \<Rightarrow> (exn + Package option) \<times> ErrorLog" where
  "LeviLaminaFetcher_fetchPackage w r =
     (let p1 = getRepo w r;
          p2 = listRepoContributors w r;
          p3 = fetchTooth w r ''HEAD'';
          p4 = fetchVersions w r;
          lg = (case p4 of Inl e \<Rightarrow> {#} | Inr (vs, l) \<Rightarrow> l);
          rejected = rejectionAt (firstRejected w r [])
                       (rejectionOf p1 @ rejectionOf p2 @ rejectionOf p3 @ rejectionOf p4)
      in (case p1 of
            Inl e \<Rightarrow> Inl rejected
          | Inr repository \<Rightarrow>
             (case p2 of
                Inl e \<Rightarrow> Inl rejected
              | Inr repositoryContributors \<Rightarrow>
                 (case p3 of
                    Inl e \<Rightarrow> Inl rejected
                  | Inr toothOpt \<Rightarrow>
                     (case p4 of
                        Inl e \<Rightarrow> Inl rejected
                      | Inr (versions0, l) \<Rightarrow>
                         (case toothOpt of
                            None \<Rightarrow> Inr None
                          | Some tooth \<Rightarrow>
                              if length versions0 = 0 then Inr None
                              else
                                Inr (Some (normalizePackage w
                                  (LeviLaminaFetcher_packageInfo r repository
                                     repositoryContributors tooth versions0))))))), lg))"

text \<open>The loop of \<^verbatim>\<open>LeviLaminaFetcher.fetch\<close> over the candidates: the packages yielded so
  far and the error log are the state. A candidate is awaited before the next is taken.\<close>

fun LeviLaminaFetcher_loop :: "World \<Rightarrow> Package list \<Rightarrow> ErrorLog \<Rightarrow> RepoId list \<Rightarrow> Package list \<times> ErrorLog" where
  "LeviLaminaFetcher_loop w out lg [] = (out, lg)"
| "LeviLaminaFetcher_loop w out lg (r # rest) =
     (if owner r = ''LiteLDev'' \<and> repo r = ''LeviLamina'' then LeviLaminaFetcher_loop w out lg rest
      else
        (case LeviLaminaFetcher_fetchPackage w r of
           (Inr (Some packageInfo), l) \<Rightarrow> LeviLaminaFetcher_loop w (out @ [packageInfo]) (lg + l) rest
         | (Inr None, l) \<Rightarrow> LeviLaminaFetcher_loop w out (lg + l) rest
         | (Inl e, l) \<Rightarrow>
             LeviLaminaFetcher_loop w out
               (add_mset (''Failed to fetch package '' @ owner r @ ''/'' @ repo r @ '':'', e) (lg + l))
               rest))"

definition LeviLaminaFetcher_query :: string where
  "LeviLaminaFetcher_query =
     ''path:/+filename:tooth.json+\"format_version\"+2+\"tooth\"+\"version\"+\"info\"+\"name\"+\"description\"+\"author\"+\"tags\"+\"github.com/LiteLDev/LeviLamina\"''"

text \<open>\<^verbatim>\<open>LeviLaminaFetcher.fetch\<close>: the packages yielded, the error log, and the error that
  ends the sequence when discovery fails.\<close>

definition LeviLaminaFetcher_fetch :: "World \<Rightarrow> Package list \<times> ErrorLog \<times> exn option" where
  "LeviLaminaFetcher_fetch w =
     (case searchForRepo w LeviLaminaFetcher_query of
        (repos, failure) \<Rightarrow>
          (case LeviLaminaFetcher_loop w [] {#} repos of
             (out, lg) \<Rightarrow> (out, lg, failure)))"

subsection \<open>\<^verbatim>\<open>EndstonePythonFetcher\<close>\<close>

definition fetchPyprojectMetadata :: "World \<Rightarrow> RepoId \<Rightarrow> exn + PythonProjectMetadata" where
  "fetchPyprojectMetadata w r =
     (let url = ''https://raw.githubusercontent.com/'' @ owner r @ ''/'' @ repo r @ ''/HEAD/pyproject.toml''
      in case globalFetch w url of
           Inl e \<Rightarrow> Inl e
         | Inr response \<Rightarrow> tomlParse w (body response))"

definition fetchPypiPackageMetadata :: "World \<Rightarrow> string \<Rightarrow> exn + PypiPackageMetadata option" where
  "fetchPypiPackageMetadata w nm =
     (let url = ''https://pypi.org/pypi/'' @ nm @ ''/json''
      in case globalFetch w url of
           Inl e \<Rightarrow> Inl e
         | Inr response \<Rightarrow>
             if \<not> ok response then Inr None
             else (case jsonPypiPackageMetadata w (body response) of
                     Inl e \<Rightarrow> Inl e
                   | Inr data \<Rightarrow> Inr (Some data)))"

text \<open>The map over \<^verbatim>\<open>repositoryVersions\<close>; \<^verbatim>\<open>toISOString\<close> may throw.\<close>

fun githubVersions :: "World \<Rightarrow> Release list \<Rightarrow> exn + Version list" where
  "githubVersions w [] = Inr []"
| "githubVersions w (v # rest) =
     (case toISOString w (case published_at v of Some p \<Rightarrow> p | None \<Rightarrow> created_at v) of
        Inl e \<Rightarrow> Inl e
      | Inr isoStr \<Rightarrow>
         (case githubVersions w rest of
            Inl e \<Rightarrow> Inl e
          | Inr vs \<Rightarrow>
              Inr (\<lparr>version = tag_name v,
                    releasedAt = isoStr,
                    source = ''github'',
                    packageManager = ''pip'',
                    platformVersionRequirement = None\<rparr> # vs)))"

text \<open>The versions taken from the registry. The keys kept have a non-empty list of files,
  so the first file read in the second step is there.\<close>

definition pypiVersionStrings :: "PypiPackageMetadata \<Rightarrow> string list" where
  "pypiVersionStrings m =
     filter (\<lambda>v. case map_of (releases m) v of Some files \<Rightarrow> length files > 0 | None \<Rightarrow> False)
       (map fst (releases m))"

definition pypiVersions :: "PypiPackageMetadata \<Rightarrow> Version list" where
  "pypiVersions m =
     map (\<lambda>v. \<lparr>version = v,
               releasedAt = (case map_of (releases m) v of Some (f # fs) \<Rightarrow> f | _ \<Rightarrow> []),
               source = ''pypi'',
               packageManager = ''pip'',
               platformVersionRequirement = None\<rparr>)
       (pypiVersionStrings m)"

text \<open>The value of \<^verbatim>\<open>versions\<close> when \<^verbatim>\<open>fetchPackage\<close> tests its length.\<close>

definition endstoneVersions :: "World \<Rightarrow> Release list \<Rightarrow> PypiPackageMetadata option \<Rightarrow> exn + Version list" where
  "endstoneVersions w repositoryVersions pypiPackageMetadata =
     (case githubVersions w repositoryVersions of
        Inl e \<Rightarrow> Inl e
      | Inr versions0 \<Rightarrow>
         (case pypiPackageMetadata of
            None \<Rightarrow> Inr versions0
          | Some m \<Rightarrow> Inr (versions0 @ pypiVersions m)))"

text \<open>The value of \<^verbatim>\<open>packageInfo\<close> in \<^verbatim>\<open>EndstonePythonFetcher.fetchPackage\<close>.\<close>

definition EndstonePythonFetcher_packageInfo ::
    "RepoId \<Rightarrow> Repository \<Rightarrow> RepoContributor list \<Rightarrow> PythonProjectMetadata \<Rightarrow> Version list \<Rightarrow> Package" where
  "EndstonePythonFetcher_packageInfo r repository repositoryContributors pyprojectMetadata versions0 =
     \<lparr>identifier' = ''github.com/'' @ owner r @ ''/'' @ repo r,
      name = project_name pyprojectMetadata,
      description = (case project_description pyprojectMetadata of Some d \<Rightarrow> d | None \<Rightarrow> []),
      author = owner_login repository,
      tags = [''platform:endstone'', ''type:mod''] @
             (case project_keywords pyprojectMetadata of Some ks \<Rightarrow> ks | None \<Rightarrow> []) @
             (case topics repository of Some ts \<Rightarrow> ts | None \<Rightarrow> []),
      avatarUrl = ''https://avatars.githubusercontent.com/'' @ owner r,
      projectUrl = ''https://github.com/'' @ owner r @ ''/'' @ repo r,
      hotness = stargazers_count repository,
      updated = [],
      contributors = map toContributor repositoryContributors,
      versions = versions0\<rparr>"

text \<open>\<^verbatim>\<open>EndstonePythonFetcher.fetchPackage\<close>: the \<^verbatim>\<open>Promise.all\<close> of four promises, with its
  rejection as above, then the request to the registry, then the versions.\<close>

definition EndstonePythonFetcher_fetchPackage :: "World \<Rightarrow> RepoId \<Rightarrow> exn + Package option" where
  "EndstonePythonFetcher_fetchPackage w r =
     (let p1 = fetchRepository w r;
          p2 = fetchRepositoryContributors w r;
          p3 = fetchRepositoryVersions w r;
          p4 = fetchPyprojectMetadata w r;
          rejected = rejectionAt (firstRejected w r [])
                       (rejectionOf p1 @ rejectionOf p2 @ rejectionOf p3 @ rejectionOf p4)
      in
     (case p1 of
        Inl e \<Rightarrow> Inl rejected
      | Inr repository \<Rightarrow>
     (case p2 of
        Inl e \<Rightarrow> Inl rejected
      | Inr repositoryContributors \<Rightarrow>
     (case p3 of
        Inl e \<Rightarrow> Inl rejected
      | Inr repositoryVersions \<Rightarrow>
     (case p4 of
        Inl e \<Rightarrow> Inl rejected
      | Inr pyprojectMetadata \<Rightarrow>
     (case fetchPypiPackageMetadata w (project_name pyprojectMetadata) of
        Inl e \<Rightarrow> Inl e
      | Inr pypiPackageMetadata \<Rightarrow>
     (case endstoneVersions w repositoryVersions pypiPackageMetadata of
        Inl e \<Rightarrow> Inl e
      | Inr versions0 \<Rightarrow>
          if length versions0 = 0 then Inr None
          else
            Inr (Some (normalizePackage w
              (EndstonePythonFetcher_packageInfo r repository repositoryContributors
                 pyprojectMetadata versions0))))))))))"

text \<open>The loop of \<^verbatim>\<open>EndstonePythonFetcher.fetch\<close>. Here \<^verbatim>\<open>fetchPackage\<close> logs nothing and every
  entry is written by the \<^verbatim>\<open>catch\<close> block, one candidate after the other: the log is a
  list.\<close>

fun EndstonePythonFetcher_loop ::
    "World \<Rightarrow> Package list \<Rightarrow> (string \<times> exn) list \<Rightarrow> RepoId list \<Rightarrow> Package list \<times> (string \<times> exn) list" where
  "EndstonePythonFetcher_loop w out lg [] = (out, lg)"
| "EndstonePythonFetcher_loop w out lg (r # rest) =
     (case EndstonePythonFetcher_fetchPackage w r of
        Inr (Some packageInfo) \<Rightarrow> EndstonePythonFetcher_loop w (out @ [packageInfo]) lg rest
      | Inr None \<Rightarrow> EndstonePythonFetcher_loop w out lg rest
      | Inl e \<Rightarrow>
          EndstonePythonFetcher_loop w out
            (lg @ [(''Error fetching Endstone Python package github.com/'' @ owner r @ ''/'' @
                    repo r @ '':'', e)]) rest)"

definition EndstonePythonFetcher_query :: string where
  "EndstonePythonFetcher_query = ''path:/+filename:pyproject.toml+[project.entry-points.\"endstone\"]''"

definition EndstonePythonFetcher_fetch :: "World \<Rightarrow> Package list \<times> (string \<times> exn) list \<times> exn option" where
  "EndstonePythonFetcher_fetch w =
     (case searchForRepositories w EndstonePythonFetcher_query of
        (repos, failure) \<Rightarrow>
          (case EndstonePythonFetcher_loop w [] [] repos of
             (out, lg) \<Rightarrow> (out, lg, failure)))"

subsection \<open>Version strings\<close>

text \<open>
  A semantic version (semver.org, 2.0.0): three numeric identifiers separated by dots,
  then an optional pre-release part after a hyphen and an optional build-metadata part
  after a plus sign, both made of dot-separated identifiers.
\<close>

definition identifier_char :: "char \<Rightarrow> bool" where
  "identifier_char c = (is_digit c \<or> is_lower c \<or> is_upper c \<or> c = CHR ''-'')"

definition numericIdentifier :: "string \<Rightarrow> bool" where
  "numericIdentifier s = (s \<noteq> [] \<and> list_all is_digit s \<and> (s = ''0'' \<or> \<not> startsWith s CHR ''0''))"

definition prereleaseIdentifier :: "string \<Rightarrow> bool" where
  "prereleaseIdentifier s =
     (s \<noteq> [] \<and> list_all identifier_char s \<and> (\<not> list_all is_digit s \<or> numericIdentifier s))"

definition buildIdentifier :: "string \<Rightarrow> bool" where
  "buildIdentifier s = (s \<noteq> [] \<and> list_all identifier_char s)"

definition versionCore :: "string \<Rightarrow> bool" where
  "versionCore s =
     (case split CHR ''.'' s of
        [a, b, c] \<Rightarrow> numericIdentifier a \<and> numericIdentifier b \<and> numericIdentifier c
      | _ \<Rightarrow> False)"

definition isSemVer :: "string \<Rightarrow> bool" where
  "isSemVer s =
     (let main = takeWhile (\<lambda>c. c \<noteq> CHR ''+'') s;
          build = dropWhile (\<lambda>c. c \<noteq> CHR ''+'') s;
          core = takeWhile (\<lambda>c. c \<noteq> CHR ''-'') main;
          pre = dropWhile (\<lambda>c. c \<noteq> CHR ''-'') main
      in versionCore core \<and>
         (pre = [] \<or> list_all prereleaseIdentifier (split CHR ''.'' (drop 1 pre))) \<and>
         (build = [] \<or> list_all buildIdentifier (split CHR ''.'' (drop 1 build))))"

definition hasBuildMetadata :: "string \<Rightarrow> bool" where
  "hasBuildMetadata s = (CHR ''+'' \<in> set s)"

subsection \<open>A reference normalizer and a reference world\<close>

text \<open>
  Modelled from the spec: \<^verbatim>\<open>normalizePackage\<close> of \<^verbatim>\<open>package.ts\<close>, which is not among the
  sources. The versions are deduplicated by version string, the first one staying, and
  sorted descending by \<open>releasedAt\<close>; \<open>updated\<close> is the \<open>releasedAt\<close> of the first version
  after sorting; the tags are deduplicated in first-seen order; the other fields are
  passed through. Only concrete evaluations use this definition.
\<close>

fun dedupVersions :: "string list \<Rightarrow> Version list \<Rightarrow> Version list" where
  "dedupVersions seen [] = []"
| "dedupVersions seen (v # vs) =
     (if version v \<in> set seen then dedupVersions seen vs
      else v # dedupVersions (version v # seen) vs)"

definition specNormalizePackage :: "Package \<Rightarrow> Package" where
  "specNormalizePackage p =
     (let vs = rev (sort_key releasedAt (dedupVersions [] (versions p)))
      in p\<lparr>tags := newSet (tags p),
           versions := vs,
           updated := (case vs of [] \<Rightarrow> updated p | v # _ \<Rightarrow> releasedAt v)\<rparr>)"

text \<open>
  A world for concrete evaluations. Discovery for the LeviLamina fetcher returns the
  platform repository itself, a repository without \<^verbatim>\<open>tooth.json\<close> at \<^verbatim>\<open>HEAD\<close>, a
  repository two of whose metadata requests fail, the later in the array first, and whose
  one version has an invalid date, and a package with two versions. Discovery for
  the Endstone fetcher returns a repository without any version, one without
  \<^verbatim>\<open>pyproject.toml\<close>, and a package with a release tagged \<^verbatim>\<open>v0.4.0\<close> that is also in the
  registry.
\<close>

definition okResponse :: "string \<Rightarrow> Response" where
  "okResponse b = \<lparr>ok = True, status = 200, statusText = ''OK'', body = b\<rparr>"

definition notFoundResponse :: Response where
  "notFoundResponse = \<lparr>ok = False, status = 404, statusText = ''Not Found'', body = ''404: Not Found''\<rparr>"

definition demoPages :: "(string \<times> string) list" where
  "demoPages =
     [(''https://raw.githubusercontent.com/LiteLDev/LeviLamina/HEAD/tooth.json'', ''tooth''),
      (''https://raw.githubusercontent.com/LiteLDev/LeviLamina/v1.0.0/tooth.json'', ''tooth''),
      (''https://goproxy.io/github.com/!lite!l!dev/!levi!lamina/@v/list'', ''v1.0.0\<newline>''),
      (''https://goproxy.io/github.com/!lite!l!dev/!levi!lamina/@v/v1.0.0.info'', ''2023-05-01T00:00:00.000Z''),
      (''https://raw.githubusercontent.com/futrime/no-tooth/v0.1.0/tooth.json'', ''tooth''),
      (''https://goproxy.io/github.com/futrime/no-tooth/@v/list'', ''v0.1.0\<newline>''),
      (''https://goproxy.io/github.com/futrime/no-tooth/@v/v0.1.0.info'', ''2023-06-01T00:00:00.000Z''),
      (''https://raw.githubusercontent.com/futrime/broken/v0.2.0/tooth.json'', ''tooth''),
      (''https://goproxy.io/github.com/futrime/broken/@v/list'', ''v0.2.0\<newline>''),
      (''https://goproxy.io/github.com/futrime/broken/@v/v0.2.0.info'', ''invalid''),
      (''https://raw.githubusercontent.com/futrime/better-things/HEAD/tooth.json'', ''tooth''),
      (''https://raw.githubusercontent.com/futrime/better-things/v1.0.0/tooth.json'', ''tooth''),
      (''https://raw.githubusercontent.com/futrime/better-things/v1.1.0/tooth.json'', ''tooth''),
      (''https://goproxy.io/github.com/futrime/better-things/@v/list'',
         ''v1.0.0\<newline>v1.1.0+incompatible\<newline>''),
      (''https://goproxy.io/github.com/futrime/better-things/@v/v1.0.0.info'', ''2024-01-02T00:00:00.000Z''),
      (''https://goproxy.io/github.com/futrime/better-things/@v/v1.1.0+incompatible.info'',
         ''2024-02-03T00:00:00.000Z''),
      (''https://raw.githubusercontent.com/endstone-dev/no-releases/HEAD/pyproject.toml'', ''pyproject-unreleased''),
      (''https://raw.githubusercontent.com/endstone-dev/example-plugin/HEAD/pyproject.toml'', ''pyproject''),
      (''https://pypi.org/pypi/endstone-example/json'', ''pypi'')]"

definition demoTooth :: Tooth where
  "demoTooth =
     \<lparr>info_name = ''Better Things'',
      info_description = ''More blocks'',
      info_tags = [''type:mod''],
      info_avatar_url = None,
      dependencies_LeviLamina = Some ''0.13.x'',
      prerequisites_LeviLamina = None\<rparr>"

definition demoRepository :: "RepoId \<Rightarrow> exn + Repository" where
  "demoRepository r =
     (if repo r = ''broken'' then Inl (HttpError 500 ''Server Error'')
      else Inr \<lparr>topics = Some [''minecraft''], stargazers_count = 12, owner_login = owner r\<rparr>)"

definition demoReleases :: "RepoId \<Rightarrow> exn + Release list" where
  "demoReleases r =
     (if repo r = ''example-plugin''
      then Inr [\<lparr>tag_name = ''v0.4.0'', published_at = Some ''2024-03-01T00:00:00.000Z'',
                 created_at = ''2024-02-28T00:00:00.000Z''\<rparr>]
      else Inr [])"

definition demoWorld :: World where
  "demoWorld =
     \<lparr>globalFetch = (\<lambda>url. case map_of demoPages url of
                               Some b \<Rightarrow> Inr (okResponse b)
                             | None \<Rightarrow> Inr notFoundResponse),
      searchForRepo = (\<lambda>q. ([\<lparr>owner = ''LiteLDev'', repo = ''LeviLamina''\<rparr>,
                              \<lparr>owner = ''futrime'', repo = ''no-tooth''\<rparr>,
                              \<lparr>owner = ''futrime'', repo = ''broken''\<rparr>,
                              \<lparr>owner = ''futrime'', repo = ''better-things''\<rparr>], None)),
      getRepo = demoRepository,
      listRepoContributors =
        (\<lambda>r. if repo r = ''broken'' then Inl (HttpError 502 ''Bad Gateway'')
             else Inr [\<lparr>login = Some ''futrime'', contributions' = 3\<rparr>]),
      searchForRepositories = (\<lambda>q. ([\<lparr>owner = ''endstone-dev'', repo = ''no-releases''\<rparr>,
                                      \<lparr>owner = ''endstone-dev'', repo = ''no-manifest''\<rparr>,
                                      \<lparr>owner = ''endstone-dev'', repo = ''example-plugin''\<rparr>], None)),
      fetchRepository = demoRepository,
      fetchRepositoryContributors = (\<lambda>r. Inr [\<lparr>login = None, contributions' = 1\<rparr>]),
      fetchRepositoryVersions = demoReleases,
      jsonTooth = (\<lambda>b. if b = ''tooth'' then Inr demoTooth else Inl (Thrown ''SyntaxError'')),
      jsonGoProxyVersion = (\<lambda>b. Inr \<lparr>Version' = [], Time = b\<rparr>),
      jsonPypiPackageMetadata =
        (\<lambda>b. if b = ''pypi''
              then Inr \<lparr>releases = [(''0.4.0'', [''2024-03-02T00:00:00.000000Z'']), (''0.5.0'', [])]\<rparr>
              else Inl (Thrown ''SyntaxError'')),
      tomlParse =
        (\<lambda>b. if b = ''pyproject''
              then Inr \<lparr>project_name = ''endstone-example'', project_description = None,
                        project_keywords = Some [''endstone'']\<rparr>
              else if b = ''pyproject-unreleased''
              then Inr \<lparr>project_name = ''endstone-unreleased'', project_description = None,
                        project_keywords = None\<rparr>
              else Inl (Thrown ''SyntaxError'')),
      toISOString = (\<lambda>s. if s = ''invalid'' then Inl (Thrown ''RangeError'') else Inr s),
      normalizePackage = specNormalizePackage,
      firstRejected = (\<lambda>r s. if repo r = ''broken'' then 1 else 0)\<rparr>"

subsection \<open>What one candidate adds to a run\<close>

text \<open>
  The packages and the error-log entries that the body of the loop of \<^verbatim>\<open>fetch\<close> adds for
  one candidate: read off the loops above, to state what a candidate contributes.
\<close>

definition LeviLaminaFetcher_adds :: "World \<Rightarrow> RepoId \<Rightarrow> Package list \<times> ErrorLog" where
  "LeviLaminaFetcher_adds w r = LeviLaminaFetcher_loop w [] {#} [r]"

definition EndstonePythonFetcher_adds :: "World \<Rightarrow> RepoId \<Rightarrow> Package list \<times> (string \<times> exn) list" where
  "EndstonePythonFetcher_adds w r = EndstonePythonFetcher_loop w [] [] [r]"

section \<open>The read API\<close>

subsection \<open>The route \<^verbatim>\<open>/:tooth/:version\<close>\<close>

text \<open>
  \<^verbatim>\<open>TOOTH_PATH_REGEXP.exec(s)\<close>: the groups \<open>owner\<close> and \<open>repo\<close> of a match. The dot of
  \<^verbatim>\<open>github.com\<close> is not escaped in the regular expression and stands for any character but
  a line terminator.
\<close>

definition TOOTH_PATH_REGEXP_exec :: "string \<Rightarrow> (string \<times> string) option" where
  "TOOTH_PATH_REGEXP_exec s =
     (if prefix ''github'' s then
        (case drop (length ''github'') s of
           [] \<Rightarrow> None
         | c # r1 \<Rightarrow>
             if dot_char c \<and> prefix ''com/'' r1 then
               let r2 = drop (length ''com/'') r1;
                   g1 = takeWhile owner_char r2;
                   r3 = dropWhile owner_char r2
               in if g1 \<noteq> [] \<and> startsWith r3 CHR ''/'' then
                    let g2 = drop 1 r3
                    in if g2 \<noteq> [] \<and> list_all repo_char g2 then Some (g1, g2) else None
                  else None
             else None)
      else None)"

text \<open>
  The metadata object of \<^verbatim>\<open>tooth_metadata.js\<close>, by the values of the methods the handler
  calls (\<open>getVersion\<close> is the version as a string).
\<close>

record ToothMetadata =
  getToothPath :: string
  getVersion :: string
  getName :: string
  getDescription :: string
  getAuthor :: string
  getTags :: "string list"
  getDependencies :: "(string \<times> string) list"

record Request =
  params_tooth :: string
  params_version :: string
  accept_language :: "string option"

record ResponseData =
  data_tooth :: string
  data_version :: string
  data_name :: string
  data_description :: string
  data_author :: string
  data_available_versions :: "string list"
  data_readme :: "string option"
  data_tags :: "string list"
  data_dependencies :: "(string \<times> string) list"

text \<open>What the handler sends: the data with code 200, or a status code with a message.\<close>

datatype Reply = Success ResponseData | Failure int string

text \<open>
  What the handler uses from outside: the network, \<^verbatim>\<open>isValidVersionString\<close> of
  \<^verbatim>\<open>version.js\<close>, \<^verbatim>\<open>createToothMetadataFromJsonString\<close> of \<^verbatim>\<open>tooth_metadata.js\<close>, the
  language codes that \<^verbatim>\<open>acceptLanguageParser.parse\<close> gives for the header, in its order,
  and the status code that \<^verbatim>\<open>httpErrors(status, message)\<close> gives to the error it makes.
  The last two fields say which promise rejects first in time, by its position among those
  that reject, in the \<^verbatim>\<open>Promise.all\<close> of the handler and in the one of \<^verbatim>\<open>fetchReadme\<close>.
\<close>

record Env =
  fetchUrl :: "string \<Rightarrow> exn + Response"
  isValidVersionString :: "string \<Rightarrow> bool"
  createToothMetadataFromJsonString :: "string \<Rightarrow> exn + ToothMetadata"
  acceptLanguageCodes :: "string option \<Rightarrow> string list"
  httpErrorsStatus :: "int \<Rightarrow> int"
  handlerRejectsFirst :: nat
  fetchReadmeRejectsFirst :: nat

text \<open>Each function returns its result with the URLs it has requested, in order.\<close>

definition fetchReadmeForLang ::
    "Env \<Rightarrow> string \<Rightarrow> string \<Rightarrow> string \<Rightarrow> string option \<Rightarrow> (exn + string option) \<times> string list" where
  "fetchReadmeForLang env ow rp versionString lang =
     (let readmeUrl =
            (case lang of
               None \<Rightarrow> ''https://raw.githubusercontent.com/'' @ ow @ ''/'' @ rp @ ''/v'' @
                         versionString @ ''/README.md''
             | Some l \<Rightarrow> ''https://raw.githubusercontent.com/'' @ ow @ ''/'' @ rp @ ''/v'' @
                           versionString @ ''/README.'' @ l @ ''.md'')
      in (case fetchUrl env readmeUrl of
            Inl e \<Rightarrow> Inl e
          | Inr response \<Rightarrow> if \<not> ok response then Inr None else Inr (Some (body response)),
          [readmeUrl]))"

text \<open>\<^verbatim>\<open>Promise.all\<close> of a list of promises already started: the values in the order of the
  array when none rejects, and otherwise the reason of the promise that rejects first in
  time, the \<open>k\<close>-th of those that reject.\<close>

fun fulfilled :: "(exn + 'a) list \<Rightarrow> 'a list" where
  "fulfilled [] = []"
| "fulfilled (Inl e # ps) = fulfilled ps"
| "fulfilled (Inr x # ps) = x # fulfilled ps"

definition promiseAll :: "nat \<Rightarrow> (exn + 'a) list \<Rightarrow> exn + 'a list" where
  "promiseAll k ps =
     (let rejs = concat (map rejectionOf ps)
      in if rejs = [] then Inr (fulfilled ps) else Inl (rejectionAt k rejs))"

text \<open>The loop of \<^verbatim>\<open>fetchReadme\<close> over \<^verbatim>\<open>readmeList\<close>.\<close>

fun firstReadme :: "string option list \<Rightarrow> string option" where
  "firstReadme [] = None"
| "firstReadme (readme # rest) = (case readme of Some t \<Rightarrow> Some t | None \<Rightarrow> firstReadme rest)"

definition fetchReadme ::
    "Env \<Rightarrow> string \<Rightarrow> string \<Rightarrow> string \<Rightarrow> string list \<Rightarrow> (exn + string option) \<times> string list" where
  "fetchReadme env ow rp versionString langList =
     (let promiseList = map (\<lambda>lang. fetchReadmeForLang env ow rp versionString (Some lang)) langList @
                        [fetchReadmeForLang env ow rp versionString None]
      in (case promiseAll (fetchReadmeRejectsFirst env) (map fst promiseList) of
            Inl e \<Rightarrow> Inl e
          | Inr readmeList \<Rightarrow> Inr (firstReadme readmeList),
          concat (map snd promiseList)))"

definition fetchToothMetadata ::
    "Env \<Rightarrow> string \<Rightarrow> string \<Rightarrow> string \<Rightarrow> (exn + ToothMetadata) \<times> string list" where
  "fetchToothMetadata env ow rp versionString =
     (let toothJsonUrl = ''https://raw.githubusercontent.com/'' @ ow @ ''/'' @ rp @ ''/v'' @
                         versionString @ ''/tooth.json''
      in (case fetchUrl env toothJsonUrl of
            Inl e \<Rightarrow> Inl e
          | Inr response \<Rightarrow>
              if \<not> ok response then
                Inl (HttpError (httpErrorsStatus env (status response))
                       (''Failed to fetch tooth.json: '' @ body response))
              else createToothMetadataFromJsonString env (body response),
          [toothJsonUrl]))"

text \<open>\<^verbatim>\<open>tag.replace(/\+incompatible$/, '')\<close>\<close>

definition removeIncompatibleSuffix :: "string \<Rightarrow> string" where
  "removeIncompatibleSuffix s =
     (if suffix ''+incompatible'' s then take (length s - length ''+incompatible'') s else s)"

definition fetchVersionList :: "Env \<Rightarrow> string \<Rightarrow> string \<Rightarrow> (exn + string list) \<times> string list" where
  "fetchVersionList env ow rp =
     (let versionListUrl = ''https://goproxy.io/github.com/'' @ ow @ ''/'' @ rp @ ''/@v/list''
      in (case fetchUrl env versionListUrl of
            Inl e \<Rightarrow> Inl e
          | Inr response \<Rightarrow>
              if \<not> ok response then
                Inl (HttpError (httpErrorsStatus env (status response))
                       (''Failed to fetch version list: '' @ body response))
              else
                let goTagList = butlast (split (char_of (10::nat)) (body response))
                in Inr (map (\<lambda>tag. removeIncompatibleSuffix (removeLeadingV tag)) goTagList),
          [versionListUrl]))"

text \<open>The \<^verbatim>\<open>catch\<close> block: an HTTP error is sent with its status code and message, any other
  error as 500 with a fixed message.\<close>

fun sendError :: "exn \<Rightarrow> Reply" where
  "sendError (HttpError statusCode message) = Failure statusCode message"
| "sendError (Thrown message) = Failure 500 ''Internal server error.''"

text \<open>
  The handler: the reply and the URLs requested. The three functions of \<^verbatim>\<open>Promise.all\<close>
  are all called, so all their requests are made; when some reject, the error caught is
  the reason of the first to reject.
\<close>

definition handler :: "Env \<Rightarrow> Request \<Rightarrow> Reply \<times> string list" where
  "handler env req =
     (case TOOTH_PATH_REGEXP_exec (params_tooth req) of
        None \<Rightarrow> (sendError (HttpError 400 ''Invalid parameter - tooth.''), [])
      | Some (ownerParam, repoParam) \<Rightarrow>
          let versionParam = params_version req in
          if \<not> isValidVersionString env versionParam then
            (sendError (HttpError 400 ''Invalid parameter - version.''), [])
          else
            let acceptedLanguages = newSet (acceptLanguageCodes env (accept_language req));
                p1 = fetchToothMetadata env ownerParam repoParam versionParam;
                p2 = fetchReadme env ownerParam repoParam versionParam acceptedLanguages;
                p3 = fetchVersionList env ownerParam repoParam;
                rejected = rejectionAt (handlerRejectsFirst env)
                             (rejectionOf (fst p1) @ rejectionOf (fst p2) @ rejectionOf (fst p3))
            in ((case fst p1 of
                   Inl e \<Rightarrow> sendError rejected
                 | Inr toothMetadata \<Rightarrow>
                    (case fst p2 of
                       Inl e \<Rightarrow> sendError rejected
                     | Inr readme \<Rightarrow>
                        (case fst p3 of
                           Inl e \<Rightarrow> sendError rejected
                         | Inr versionList \<Rightarrow>
                             Success \<lparr>data_tooth = getToothPath toothMetadata,
                                      data_version = getVersion toothMetadata,
                                      data_name = getName toothMetadata,
                                      data_description = getDescription toothMetadata,
                                      data_author = getAuthor toothMetadata,
                                      data_available_versions = versionList,
                                      data_readme = readme,
                                      data_tags = getTags toothMetadata,
                                      data_dependencies = getDependencies toothMetadata\<rparr>))),
                snd p1 @ snd p2 @ snd p3))"

subsection \<open>The identifier format and a reference environment\<close>

text \<open>The identifier format \<^verbatim>\<open>github.com/<owner>/<repo>\<close>: the host as written, then an owner
  and a repository name of the permitted characters.\<close>

definition identifierFormat :: "string \<Rightarrow> bool" where
  "identifierFormat s =
     (prefix ''github.com/'' s \<and>
      (let r = drop (length ''github.com/'') s;
           ow = takeWhile (\<lambda>c. c \<noteq> CHR ''/'') r;
           rest = dropWhile (\<lambda>c. c \<noteq> CHR ''/'') r
       in ow \<noteq> [] \<and> list_all owner_char ow \<and> rest \<noteq> [] \<and> drop 1 rest \<noteq> [] \<and>
          list_all repo_char (drop 1 rest)))"

text \<open>
  An environment for concrete evaluations: the repository \<^verbatim>\<open>futrime/better-things\<close> has
  version 1.0.0 with an English README and no other; versions are valid when they are
  semantic versions; the client prefers \<open>zh\<close>, then \<open>en\<close>.
\<close>

definition demoMetadata :: ToothMetadata where
  "demoMetadata =
     \<lparr>getToothPath = ''github.com/futrime/better-things'',
      getVersion = ''1.0.0'',
      getName = ''Better Things'',
      getDescription = ''More blocks'',
      getAuthor = ''futrime'',
      getTags = [''type:mod''],
      getDependencies = []\<rparr>"

definition demoFiles :: "(string \<times> string) list" where
  "demoFiles =
     [(''https://raw.githubusercontent.com/futrime/better-things/v1.0.0/tooth.json'', ''tooth''),
      (''https://raw.githubusercontent.com/futrime/better-things/v1.0.0/README.en.md'', ''# Better Things''),
      (''https://raw.githubusercontent.com/futrime/better-things/v1.1.0/tooth.json'', ''tooth''),
      (''https://goproxy.io/github.com/futrime/better-things/@v/list'',
         ''v1.0.0\<newline>v1.1.0+incompatible\<newline>'')]"

definition demoEnv :: Env where
  "demoEnv =
     \<lparr>fetchUrl = (\<lambda>url. case map_of demoFiles url of
                            Some b \<Rightarrow> Inr (okResponse b)
                          | None \<Rightarrow> Inr notFoundResponse),
      isValidVersionString = isSemVer,
      createToothMetadataFromJsonString =
        (\<lambda>b. if b = ''tooth'' then Inr demoMetadata else Inl (Thrown ''SyntaxError'')),
      acceptLanguageCodes = (\<lambda>h. case h of None \<Rightarrow> [] | Some x \<Rightarrow> [''zh'', ''en'', ''zh'']),
      httpErrorsStatus = (\<lambda>s. if 400 \<le> s \<and> s < 600 then s else 500),
      handlerRejectsFirst = 0,
      fetchReadmeRejectsFirst = 0\<rparr>"


section \<open>Properties of the search\<close>

subsection \<open>The regular expression of tag-qualified terms\<close>

lemma not_tag_char_colon: "\<not> tag_char CHR '':''"
  by (simp add: tag_char_def is_lower_def is_digit_def)

lemma tagRegexTest_iff: "tagRegexTest t = tagQualified t"
proof
  assume "tagRegexTest t"
  then obtain v where r: "dropWhile tag_char t = CHR '':'' # v" and k: "takeWhile tag_char t \<noteq> []"
    and v: "v \<noteq> []" "list_all tag_char v"
    by (auto simp: tagRegexTest_def Let_def split: list.splits)
  have "t = takeWhile tag_char t @ '':'' @ v"
    using takeWhile_dropWhile_id[of tag_char t] r by simp
  moreover have "\<forall>c\<in>set (takeWhile tag_char t). tag_char c"
    by (auto dest: set_takeWhileD)
  ultimately show "tagQualified t"
    unfolding tagQualified_def using k v
    by (metis list_all_iff tag_char_def)
next
  assume "tagQualified t"
  then obtain k v where t: "t = k @ '':'' @ v" and k: "k \<noteq> []" and v: "v \<noteq> []"
    and ak: "\<forall>c\<in>set k. tag_char c" and av: "\<forall>c\<in>set v. tag_char c"
    unfolding tagQualified_def tag_char_def by blast
  have "takeWhile tag_char t = k" "dropWhile tag_char t = CHR '':'' # v"
    using ak not_tag_char_colon by (simp_all add: t)
  then show "tagRegexTest t"
    using k v av by (simp add: tagRegexTest_def list_all_iff)
qed

lemmas tag_eval = tagRegexTest_iff[symmetric] tagRegexTest_def tag_char_def is_lower_def is_digit_def

subsection \<open>The two loops\<close>

lemma holds_termTree: "holds sat (termTree t) p = termPredicate sat t p"
  by (simp add: termTree_def termPredicate_def freeTextTree_def)

lemma exact_step:
  "exactLoop query (t # rest) = exactLoop (conj query (termTree t)) rest"
  by (simp add: Let_def tagRegexTest_iff termTree_def freeTextTree_def andFn_def orField_def conj_def
      split: option.splits)

lemma exactLoop_foldl: "exactLoop query ts = Inr (foldl conj query (map termTree ts))"
proof (induction ts arbitrary: query)
  case Nil
  show ?case by simp
next
  case (Cons t ts)
  show ?case by (simp only: exact_step Cons.IH list.map foldl_Cons)
qed

lemma optional_step:
  "optionalLoop subQuery (t # rest) = optionalLoop (disj subQuery (termTree t)) rest"
  by (simp add: Let_def tagRegexTest_iff termTree_def freeTextTree_def orFn_def orField_def disj_def
      split: option.splits)

lemma optionalLoop_foldl: "optionalLoop subQuery ts = Inr (foldl disj subQuery (map termTree ts))"
proof (induction ts arbitrary: subQuery)
  case Nil
  show ?case by simp
next
  case (Cons t ts)
  show ?case by (simp only: optional_step Cons.IH list.map foldl_Cons)
qed

lemma selects_None: "selects sat None p"
  by (simp add: selects_def)

lemma selects_conj: "selects sat (conj s w) p = (selects sat s p \<and> holds sat w p)"
  by (simp add: selects_def conj_def split: option.splits)

lemma selects_foldl_conj:
  "selects sat (foldl conj s ws) p = (selects sat s p \<and> (\<forall>w \<in> set ws. holds sat w p))"
  by (induction ws arbitrary: s) (auto simp: selects_conj)

lemma foldl_disj_Some:
  "\<exists>g. foldl disj (Some w) ws = Some g \<and>
       (\<forall>sat p. holds sat g p = (holds sat w p \<or> (\<exists>x \<in> set ws. holds sat x p)))"
proof (induction ws arbitrary: w)
  case Nil
  show ?case by simp
next
  case (Cons x xs)
  from Cons.IH[of "WhereOr w x"] show ?case by (auto simp: disj_def)
qed

lemma foldl_disj_None:
  assumes "ws \<noteq> []"
  shows "\<exists>g. foldl disj None ws = Some g \<and> (\<forall>sat p. holds sat g p = (\<exists>x \<in> set ws. holds sat x p))"
proof -
  from assms obtain x xs where ws: "ws = x # xs" by (cases ws) auto
  from foldl_disj_Some[of x xs] show ?thesis by (auto simp: ws disj_def)
qed

lemmas tokens_eval = qList_def exactQList_def optionalQList_def replaceAll_def slice1_def

subsection \<open>Tokens\<close>

text \<open>A query string with more than one token has more than one character.\<close>

lemma split_nonempty: "split c s \<noteq> []"
  by (induction s) (auto split: list.splits)

lemma split_lengths: "length (concat (split c s)) + length (split c s) = Suc (length s)"
  using split_nonempty[of c]
  by (induction s) (auto split: list.splits)

lemma concat_filter_nonempty:
  "length (concat (filter (\<lambda>item. length item > 0) xs)) = length (concat xs)"
  by (induction xs) auto

lemma length_le_concat:
  "length (filter (\<lambda>item. length item > 0) xs) \<le> length (concat (filter (\<lambda>item. length item > 0) xs))"
proof (induction xs)
  case Nil
  show ?case by simp
next
  case (Cons a xs)
  show ?case
  proof (cases a)
    case Nil
    with Cons.IH show ?thesis by simp
  next
    case (Cons c cs)
    with Cons.IH show ?thesis by simp
  qed
qed

lemma more_tokens_longer:
  assumes "1 < length (qList q)"
  shows "1 < length q"
proof -
  let ?ps = "split CHR '' '' (replaceAll CHR ''*'' CHR '' '' q)"
  have "length (qList q) \<le> length (concat ?ps)"
    unfolding qList_def using length_le_concat[of ?ps] concat_filter_nonempty[of ?ps] by simp
  moreover have "length (qList q) \<le> length ?ps"
    by (simp add: qList_def)
  moreover have "length (concat ?ps) + length ?ps = Suc (length q)"
    using split_lengths[of "CHR '' ''" "replaceAll CHR ''*'' CHR '' '' q"]
    by (simp add: replaceAll_def)
  ultimately show ?thesis using assms by linarith
qed

text \<open>The token lists of \<^verbatim>\<open>search\<close> are those of the specification.\<close>

lemma tokensFrom_split:
  "tokensFrom w s =
     filter (\<lambda>item. length item > 0)
       (case split CHR '' '' (replaceAll CHR ''*'' CHR '' '' s) of
          [] \<Rightarrow> []
        | p # rest \<Rightarrow> (w @ p) # rest)"
proof (induction s arbitrary: w)
  case Nil
  show ?case by (simp add: replaceAll_def)
next
  case (Cons c cs)
  obtain p rest where s: "split CHR '' '' (replaceAll CHR ''*'' CHR '' '' cs) = p # rest"
    using split_nonempty[of "CHR '' ''" "replaceAll CHR ''*'' CHR '' '' cs"]
    by (cases "split CHR '' '' (replaceAll CHR ''*'' CHR '' '' cs)") auto
  then have s': "split CHR '' '' (map (\<lambda>c. if c = CHR ''*'' then CHR '' '' else c) cs) = p # rest"
    by (simp add: replaceAll_def)
  show ?case
  proof (cases "c = CHR '' '' \<or> c = CHR ''*''")
    case True
    then show ?thesis
      using Cons.IH[of "[]"] s by (auto simp: replaceAll_def s')
  next
    case False
    then show ?thesis
      using Cons.IH[of "w @ [c]"] s by (auto simp: replaceAll_def s')
  qed
qed

lemma qList_queryTokens: "qList q = queryTokens q"
  using split_nonempty[of "CHR '' ''" "replaceAll CHR ''*'' CHR '' '' q"]
  by (cases "split CHR '' '' (replaceAll CHR ''*'' CHR '' '' q)")
     (simp_all add: qList_def queryTokens_def tokensFrom_split)

lemma exact_required:
  "map slice1 (filter (\<lambda>item. startsWith item CHR ''+'') ts) =
   [cs. c # cs \<leftarrow> ts, c = CHR ''+'']"
proof (induction ts)
  case Nil
  show ?case by simp
next
  case (Cons t ts)
  then show ?case by (cases t) (simp_all add: slice1_def)
qed

lemma optional_others:
  "filter (\<lambda>item. \<not> startsWith item CHR ''+'') ts = [t. t \<leftarrow> ts, take 1 t \<noteq> ''+'']"
proof (induction ts)
  case Nil
  show ?case by simp
next
  case (Cons t ts)
  then show ?case by (cases t) simp_all
qed

lemma exactQList_requiredTokens: "exactQList q = requiredTokens q"
  by (simp only: exactQList_def requiredTokens_def qList_queryTokens exact_required)

lemma optionalQList_optionalTokens: "optionalQList q = optionalTokens q"
  by (simp only: optionalQList_def optionalTokens_def qList_queryTokens optional_others)

subsection \<open>The shape of the predicate\<close>

text \<open>
  Claim C1. For a query string of more than one character (by \<open>more_tokens_longer\<close>,
  every query with more than one token is one), building the query succeeds, and a record
  satisfies the result exactly when it satisfies the predicate of every required token
  and, unless there is no optional token, the predicate of some optional token. The
  required tokens are the tokens of the query string that begin with \<open>+\<close>, without it, and
  the optional tokens are the other tokens. With no optional token the result is the
  conjunction of the required tokens' conditions alone: no disjunction is added.
\<close>

theorem search_predicate:
  assumes "1 < length q"
  shows "\<exists>query. buildQuery q = Inr query \<and>
           (\<forall>sat (p::'p). selects sat query p =
              ((\<forall>t \<in> set (requiredTokens q). termPredicate sat t p) \<and>
               (optionalTokens q = [] \<or> (\<exists>t \<in> set (optionalTokens q). termPredicate sat t p)))) \<and>
           (optionalTokens q = [] \<longrightarrow> query = allOf (map termTree (requiredTokens q)))"
proof (cases "optionalQList q = []")
  case True
  then have "buildQuery q = Inr (allOf (map termTree (exactQList q)))"
    using assms by (simp add: buildQuery_def exactLoop_foldl allOf_def)
  then show ?thesis
    using True
    by (simp add: allOf_def selects_foldl_conj holds_termTree selects_None
        exactQList_requiredTokens optionalQList_optionalTokens)
next
  case False
  then obtain g where g: "foldl disj None (map termTree (optionalQList q)) = Some g"
    and hg: "\<And>sat (p::'p). holds sat g p = (\<exists>t \<in> set (optionalQList q). termPredicate sat t p)"
    using foldl_disj_None[where ?'a = 'p, of "map termTree (optionalQList q)"]
    by (auto simp: holds_termTree)
  have "buildQuery q = Inr (conj (foldl conj None (map termTree (exactQList q))) g)"
    using assms False
    by (simp add: buildQuery_def exactLoop_foldl optionalLoop_foldl g andFn_def conj_def)
  then show ?thesis
    using False hg
    by (simp add: selects_conj selects_foldl_conj holds_termTree selects_None
        exactQList_requiredTokens optionalQList_optionalTokens)
qed

theorem search_predicate_witness:
  "1 < length ''+type:mod +stone'' \<and>
   requiredTokens ''+type:mod +stone'' = [''type:mod'', ''stone''] \<and>
   optionalTokens ''+type:mod +stone'' = [] \<and>
   buildQuery ''+type:mod +stone'' =
     Inr (Some (WhereAnd (Cond (Contains Tags ''type:mod'')) (freeTextTree ''stone''))) \<and>
   \<not> selects indexSat (Some (WhereAnd (Cond (Contains Tags ''type:mod'')) (freeTextTree ''stone'')))
        demoPackage \<and>
   1 < length ''+type:mod stone*blocks'' \<and>
   requiredTokens ''+type:mod stone*blocks'' = [''type:mod''] \<and>
   optionalTokens ''+type:mod stone*blocks'' = [''stone'', ''blocks''] \<and>
   buildQuery ''+type:mod stone*blocks'' =
     Inr (Some (WhereAnd (Cond (Contains Tags ''type:mod''))
                  (WhereOr (freeTextTree ''stone'') (freeTextTree ''blocks'')))) \<and>
   selects indexSat
     (Some (WhereAnd (Cond (Contains Tags ''type:mod''))
              (WhereOr (freeTextTree ''stone'') (freeTextTree ''blocks'')))) demoPackage \<and>
   \<not> termPredicate indexSat ''stone'' demoPackage \<and>
   termPredicate indexSat ''blocks'' demoPackage \<and>
   (\<exists>query. buildQuery ''+type:mod stone wood'' = Inr query \<and>
      optionalTokens ''+type:mod stone wood'' = [''stone'', ''wood''] \<and>
      termPredicate indexSat ''type:mod'' demoPackage \<and>
      \<not> selects indexSat query demoPackage)"
proof -
  have t1: "tagQualified ''type:mod''" and t2: "\<not> tagQualified ''stone''"
    and t3: "\<not> tagQualified ''blocks''" and t4: "\<not> tagQualified ''wood''"
    by (simp_all add: tag_eval)
  have r1: "requiredTokens ''+type:mod +stone'' = [''type:mod'', ''stone'']"
    and o1: "optionalTokens ''+type:mod +stone'' = []"
    and r2: "requiredTokens ''+type:mod stone*blocks'' = [''type:mod'']"
    and o2: "optionalTokens ''+type:mod stone*blocks'' = [''stone'', ''blocks'']"
    and r3: "requiredTokens ''+type:mod stone wood'' = [''type:mod'']"
    and o3: "optionalTokens ''+type:mod stone wood'' = [''stone'', ''wood'']"
    by code_simp+
  have b1: "buildQuery ''+type:mod +stone'' =
      Inr (Some (WhereAnd (Cond (Contains Tags ''type:mod'')) (freeTextTree ''stone'')))"
    using search_predicate[of "''+type:mod +stone''", where ?'p = Package]
    by (auto simp: r1 o1 allOf_def conj_def termTree_def t1 t2)
  have b2: "buildQuery ''+type:mod stone*blocks'' =
      Inr (Some (WhereAnd (Cond (Contains Tags ''type:mod''))
                   (WhereOr (freeTextTree ''stone'') (freeTextTree ''blocks''))))"
    by code_simp
  have p1: "\<not> termPredicate indexSat ''stone'' demoPackage"
    unfolding termPredicate_def by (simp only: t2 if_False) code_simp
  have p2: "termPredicate indexSat ''blocks'' demoPackage"
    unfolding termPredicate_def by (simp only: t3 if_False) code_simp
  have p3: "\<not> termPredicate indexSat ''wood'' demoPackage"
    unfolding termPredicate_def by (simp only: t4 if_False) code_simp
  have p4: "termPredicate indexSat ''type:mod'' demoPackage"
    unfolding termPredicate_def by (simp only: t1 if_True) code_simp
  note p = p1 p2 p3 p4
  have s1: "\<not> selects indexSat (Some (WhereAnd (Cond (Contains Tags ''type:mod'')) (freeTextTree ''stone'')))
        demoPackage"
    using search_predicate[of "''+type:mod +stone''", where ?'p = Package] p
    by (auto simp: b1 r1 o1)
  have s2: "selects indexSat
     (Some (WhereAnd (Cond (Contains Tags ''type:mod''))
              (WhereOr (freeTextTree ''stone'') (freeTextTree ''blocks'')))) demoPackage"
    using search_predicate[of "''+type:mod stone*blocks''", where ?'p = Package] p
    by (auto simp: b2 r2 o2)
  have s3: "\<exists>query. buildQuery ''+type:mod stone wood'' = Inr query \<and>
      optionalTokens ''+type:mod stone wood'' = [''stone'', ''wood''] \<and>
      termPredicate indexSat ''type:mod'' demoPackage \<and>
      \<not> selects indexSat query demoPackage"
    using search_predicate[of "''+type:mod stone wood''", where ?'p = Package] p
    by (auto simp: r3 o3)
  from r1 o1 b1 s1 r2 o2 b2 s2 p s3 show ?thesis by simp
qed


subsection \<open>Queries without a filter\<close>

text \<open>Building the query never fails: the disjunction of the optional tokens is added
  only when there is one, so the builder never sees a group without a condition.\<close>

lemma buildQuery_total: "\<exists>query. buildQuery q = Inr query"
proof (cases "optionalQList q")
  case Nil
  then show ?thesis by (simp add: buildQuery_def exactLoop_foldl)
next
  case (Cons t ts)
  obtain g where "foldl disj None (map termTree (t # ts)) = Some g"
    using foldl_disj_None[of "map termTree (t # ts)"] by auto
  then show ?thesis
    by (simp add: buildQuery_def exactLoop_foldl optionalLoop_foldl Cons andFn_def)
qed

text \<open>
  Claim C2, as the code has it. The query string is not trimmed: a string of at most one
  character, or one without any token (spaces and \<open>*\<close> only), gives the builder without a
  condition, which every record satisfies, so nothing is filtered out.
\<close>

theorem short_query_matches_all:
  assumes "length q \<le> 1 \<or> qList q = []"
  shows "buildQuery q = Inr None \<and> (\<forall>sat (p::'p). selects sat None p) \<and>
         filter (selects (condSat ix) None) (records ix) = records ix"
proof -
  have "buildQuery q = Inr None"
  proof (cases "length q \<le> 1")
    case True
    then show ?thesis by (simp add: buildQuery_def)
  next
    case False
    with assms have "qList q = []" by simp
    then show ?thesis by (simp add: buildQuery_def exactQList_def optionalQList_def)
  qed
  then show ?thesis by (simp add: selects_None)
qed

theorem short_query_matches_all_witness:
  "(length ''a'' \<le> 1 \<or> qList ''a'' = []) \<and> buildQuery ''a'' = Inr None \<and>
   selects indexSat None demoPackage \<and>
   filter (selects (condSat demoIndex) None) (records demoIndex) = records demoIndex"
  using short_query_matches_all[of "''a''" demoIndex, where ?'p = Package] by simp

text \<open>
  The claim as stated fails: the string of a space and \<open>z\<close> has a trimmed length of one,
  and still builds the free-text condition for \<open>z\<close>, which the package
  \<open>demoPackage\<close> does not satisfy.
\<close>

theorem trimmed_short_query_counterexample:
  "length (trim '' z'') \<le> 1 \<and>
   buildQuery '' z'' = Inr (Some (freeTextTree ''z'')) \<and>
   \<not> selects indexSat (Some (freeTextTree ''z'')) demoPackage"
  by code_simp

subsection \<open>The condition of one token\<close>



subsection \<open>Pages\<close>

lemma ceiling_bounds:
  fixes n p :: int
  assumes "1 \<le> p"
  shows "(\<lceil>real_of_int n / real_of_int p\<rceil> - 1) * p < n \<and> n \<le> \<lceil>real_of_int n / real_of_int p\<rceil> * p"
proof -
  let ?c = "\<lceil>real_of_int n / real_of_int p\<rceil>"
  have p: "0 < real_of_int p" using assms by simp
  have "real_of_int n / real_of_int p \<le> real_of_int ?c" by (rule le_of_int_ceiling)
  then have "real_of_int n \<le> real_of_int ?c * real_of_int p"
    by (simp only: pos_divide_le_eq[OF p])
  then have a: "n \<le> ?c * p" by (metis of_int_le_iff of_int_mult)
  have "real_of_int ?c - 1 < real_of_int n / real_of_int p" by linarith
  then have "(real_of_int ?c - 1) * real_of_int p < real_of_int n"
    by (simp only: pos_less_divide_eq[OF p])
  then have "real_of_int ((?c - 1) * p) < real_of_int n" by simp
  then have b: "(?c - 1) * p < n" by (simp only: of_int_less_iff)
  from a b show ?thesis by simp
qed

text \<open>
  Claim C4. With \<open>perPage \<ge> 1\<close> and \<open>page \<ge> 1\<close> the search succeeds; the page returned is
  the part of the sorted result set that starts at offset \<open>(page - 1) * perPage\<close> and has at
  most \<open>perPage\<close> records; the page count is the ceiling of the number of all records that
  satisfy the predicate over \<open>perPage\<close>, that is the least number of pages that hold them
  all, and it is the same for every requested page.
\<close>

theorem search_pagination:
  assumes "1 \<le> perPage" and "1 \<le> page"
  shows "\<exists>query r. buildQuery q = Inr query \<and> search ix q perPage page srt ord = Inr r \<and>
     (let matching = filter (selects (condSat ix) query) (records ix);
          sorted = sortBy ix (sortFieldMap srt) (sortOrderMap ord) matching;
          n = int (length matching)
      in packages r = take (nat perPage) (drop (nat ((page - 1) * perPage)) sorted) \<and>
         (\<forall>i < length (packages r). packages r ! i = sorted ! (nat ((page - 1) * perPage) + i)) \<and>
         pageCount r = \<lceil>real_of_int n / real_of_int perPage\<rceil> \<and>
         (pageCount r - 1) * perPage < n \<and> n \<le> pageCount r * perPage \<and>
         (\<forall>page' \<ge> 1. \<exists>r'. search ix q perPage page' srt ord = Inr r' \<and> pageCount r' = pageCount r))"
proof -
  obtain query where bq: "buildQuery q = Inr query" using buildQuery_total by blast
  define r where "r = \<lparr>packages = returnPage ix query (sortFieldMap srt) (sortOrderMap ord) ((page - 1) * perPage) perPage,
      pageCount = \<lceil>real_of_int (count ix query) / real_of_int perPage\<rceil>\<rparr>"
  have s: "search ix q perPage page srt ord = Inr r"
    using assms by (simp add: search_def bq r_def Let_def)
  have s': "\<And>page'. 1 \<le> page' \<Longrightarrow> \<exists>r'. search ix q perPage page' srt ord = Inr r' \<and> pageCount r' = pageCount r"
    using assms by (simp add: search_def bq r_def Let_def)
  have b: "(pageCount r - 1) * perPage < count ix query \<and> count ix query \<le> pageCount r * perPage"
    using ceiling_bounds[OF assms(1), of "count ix query"] by (simp add: r_def)
  show ?thesis
    using bq s s' b by (auto simp: Let_def r_def count_def returnPage_def)
qed

theorem search_pagination_witness:
  "(1::int) \<le> 10 \<and> (1::int) \<le> 3 \<and>
   (\<exists>r. search demoIndex ''+type:mod thing'' 10 3 Hotness Desc = Inr r \<and>
        length (packages r) = 5 \<and> pageCount r = 3)"
proof -
  let ?w = "WhereAnd (Cond (Contains Tags ''type:mod'')) (freeTextTree ''thing'')"
  have bq: "buildQuery ''+type:mod thing'' = Inr (Some ?w)"
    by code_simp
  have m: "filter (selects (condSat demoIndex) (Some ?w)) (records demoIndex) = replicate 25 demoPackage"
    by code_simp
  have l: "length (sortBy demoIndex ''hotness'' ''DESC'' (replicate 25 demoPackage)) = 25"
    by code_simp
  from search_pagination[of 10 3 "''+type:mod thing''" demoIndex Hotness Desc]
  obtain r where "search demoIndex ''+type:mod thing'' 10 3 Hotness Desc = Inr r"
    and "packages r = take 10 (drop 20 (sortBy demoIndex ''hotness'' ''DESC'' (replicate 25 demoPackage)))"
    and "pageCount r = \<lceil>real_of_int 25 / real_of_int 10\<rceil>"
    by (auto simp: bq m Let_def)
  then show ?thesis
    by (auto simp: l)
qed

section \<open>Properties of the fetchers\<close>

subsection \<open>The loops over the candidates\<close>

text \<open>A run adds, candidate after candidate, what each candidate adds by itself: the
  resolution of a candidate does not depend on the candidates before it.\<close>

lemma LeviLamina_loop_step:
  "LeviLaminaFetcher_loop w out lg (r # rest) =
     LeviLaminaFetcher_loop w (out @ fst (LeviLaminaFetcher_adds w r))
       (lg + snd (LeviLaminaFetcher_adds w r)) rest"
  by (simp add: LeviLaminaFetcher_adds_def split: prod.splits sum.splits option.splits)

lemma LeviLamina_loop_concat:
  "LeviLaminaFetcher_loop w out lg rs =
     (out @ concat (map (\<lambda>r. fst (LeviLaminaFetcher_adds w r)) rs),
      lg + sum_list (map (\<lambda>r. snd (LeviLaminaFetcher_adds w r)) rs))"
proof (induction rs arbitrary: out lg)
  case Nil
  show ?case by simp
next
  case (Cons r rs)
  show ?case
    by (simp only: LeviLamina_loop_step Cons.IH list.map concat.simps append_assoc
        sum_list.Cons add.assoc)
qed

lemma Endstone_loop_step:
  "EndstonePythonFetcher_loop w out lg (r # rest) =
     EndstonePythonFetcher_loop w (out @ fst (EndstonePythonFetcher_adds w r))
       (lg @ snd (EndstonePythonFetcher_adds w r)) rest"
  by (simp add: EndstonePythonFetcher_adds_def split: prod.splits sum.splits option.splits)

lemma Endstone_loop_concat:
  "EndstonePythonFetcher_loop w out lg rs =
     (out @ concat (map (\<lambda>r. fst (EndstonePythonFetcher_adds w r)) rs),
      lg @ concat (map (\<lambda>r. snd (EndstonePythonFetcher_adds w r)) rs))"
proof (induction rs arbitrary: out lg)
  case Nil
  show ?case by simp
next
  case (Cons r rs)
  show ?case by (simp only: Endstone_loop_step Cons.IH list.map concat.simps append_assoc)
qed

lemma LeviLamina_adds_cases:
  "LeviLaminaFetcher_adds w r =
     (if owner r = ''LiteLDev'' \<and> repo r = ''LeviLamina'' then ([], {#})
      else case LeviLaminaFetcher_fetchPackage w r of
             (Inr (Some p), l) \<Rightarrow> ([p], l)
           | (Inr None, l) \<Rightarrow> ([], l)
           | (Inl e, l) \<Rightarrow>
               ([], add_mset (''Failed to fetch package '' @ owner r @ ''/'' @ repo r @ '':'', e) l))"
  by (simp add: LeviLaminaFetcher_adds_def split: prod.splits sum.splits option.splits)

lemma Endstone_adds_cases:
  "EndstonePythonFetcher_adds w r =
     (case EndstonePythonFetcher_fetchPackage w r of
        Inr (Some p) \<Rightarrow> ([p], [])
      | Inr None \<Rightarrow> ([], [])
      | Inl e \<Rightarrow> ([], [(''Error fetching Endstone Python package github.com/'' @ owner r @ ''/'' @
                         repo r @ '':'', e)]))"
  by (simp add: EndstonePythonFetcher_adds_def split: prod.splits sum.splits option.splits)

lemma LeviLamina_fetch_concat:
  "LeviLaminaFetcher_fetch w =
     (concat (map (\<lambda>r. fst (LeviLaminaFetcher_adds w r)) (fst (searchForRepo w LeviLaminaFetcher_query))),
      sum_list (map (\<lambda>r. snd (LeviLaminaFetcher_adds w r)) (fst (searchForRepo w LeviLaminaFetcher_query))),
      snd (searchForRepo w LeviLaminaFetcher_query))"
  by (simp add: LeviLaminaFetcher_fetch_def LeviLamina_loop_concat split: prod.splits)

lemma Endstone_fetch_concat:
  "EndstonePythonFetcher_fetch w =
     (concat (map (\<lambda>r. fst (EndstonePythonFetcher_adds w r)) (fst (searchForRepositories w EndstonePythonFetcher_query))),
      concat (map (\<lambda>r. snd (EndstonePythonFetcher_adds w r)) (fst (searchForRepositories w EndstonePythonFetcher_query))),
      snd (searchForRepositories w EndstonePythonFetcher_query))"
  by (simp add: EndstonePythonFetcher_fetch_def Endstone_loop_concat split: prod.splits)

subsection \<open>The rejection of \<^verbatim>\<open>Promise.all\<close>\<close>

text \<open>The reason reported is the reason of one of the promises that reject.\<close>

lemma rejectionAt_mem: "rejs \<noteq> [] \<Longrightarrow> rejectionAt k rejs \<in> set rejs"
  by (simp add: rejectionAt_def)

lemma LeviLamina_rejection:
  assumes "fst (LeviLaminaFetcher_fetchPackage w r) = Inl e"
  shows "e \<in> set (rejectionOf (getRepo w r) @ rejectionOf (listRepoContributors w r) @
                   rejectionOf (fetchTooth w r ''HEAD'') @ rejectionOf (fetchVersions w r))"
proof -
  let ?rejs = "rejectionOf (getRepo w r) @ rejectionOf (listRepoContributors w r) @
               rejectionOf (fetchTooth w r ''HEAD'') @ rejectionOf (fetchVersions w r)"
  from assms have "?rejs \<noteq> [] \<and> e = rejectionAt (firstRejected w r []) ?rejs"
    unfolding LeviLaminaFetcher_fetchPackage_def Let_def
    by (auto split: sum.splits option.splits prod.splits if_splits)
  then show ?thesis using rejectionAt_mem[of ?rejs] by simp
qed

subsection \<open>Packages that are emitted\<close>

lemma LeviLamina_fetchPackage_Some:
  assumes "fst (LeviLaminaFetcher_fetchPackage w r) = Inr (Some p)"
  shows "\<exists>repository cs tooth vs lg.
           fetchTooth w r ''HEAD'' = Inr (Some tooth) \<and> fetchVersions w r = Inr (vs, lg) \<and>
           vs \<noteq> [] \<and>
           p = normalizePackage w (LeviLaminaFetcher_packageInfo r repository cs tooth vs)"
  using assms unfolding LeviLaminaFetcher_fetchPackage_def Let_def
  by (auto split: sum.splits option.splits prod.splits if_splits)

lemma Endstone_fetchPackage_Some:
  assumes "EndstonePythonFetcher_fetchPackage w r = Inr (Some p)"
  shows "\<exists>repository cs rvs meta pypi vs.
           fetchRepositoryVersions w r = Inr rvs \<and>
           fetchPyprojectMetadata w r = Inr meta \<and>
           fetchPypiPackageMetadata w (project_name meta) = Inr pypi \<and>
           endstoneVersions w rvs pypi = Inr vs \<and> vs \<noteq> [] \<and>
           p = normalizePackage w (EndstonePythonFetcher_packageInfo r repository cs meta vs)"
  using assms unfolding EndstonePythonFetcher_fetchPackage_def Let_def
  by (auto split: sum.splits option.splits if_splits)

lemma LeviLamina_emitted:
  assumes "p \<in> set (fst (LeviLaminaFetcher_fetch w))"
  shows "\<exists>r. r \<in> set (fst (searchForRepo w LeviLaminaFetcher_query)) \<and>
             \<not> (owner r = ''LiteLDev'' \<and> repo r = ''LeviLamina'') \<and>
             fst (LeviLaminaFetcher_fetchPackage w r) = Inr (Some p)"
proof -
  from assms obtain r where r: "r \<in> set (fst (searchForRepo w LeviLaminaFetcher_query))"
    and p: "p \<in> set (fst (LeviLaminaFetcher_adds w r))"
    by (auto simp: LeviLamina_fetch_concat)
  from p have "\<not> (owner r = ''LiteLDev'' \<and> repo r = ''LeviLamina'')"
    and "fst (LeviLaminaFetcher_fetchPackage w r) = Inr (Some p)"
    by (auto simp: LeviLamina_adds_cases split: if_splits prod.splits sum.splits option.splits)
  with r show ?thesis by blast
qed

lemma Endstone_emitted:
  assumes "p \<in> set (fst (EndstonePythonFetcher_fetch w))"
  shows "\<exists>r. r \<in> set (fst (searchForRepositories w EndstonePythonFetcher_query)) \<and>
             EndstonePythonFetcher_fetchPackage w r = Inr (Some p)"
proof -
  from assms obtain r where r: "r \<in> set (fst (searchForRepositories w EndstonePythonFetcher_query))"
    and p: "p \<in> set (fst (EndstonePythonFetcher_adds w r))"
    by (auto simp: Endstone_fetch_concat)
  from p have "EndstonePythonFetcher_fetchPackage w r = Inr (Some p)"
    by (auto simp: Endstone_adds_cases split: sum.splits option.splits)
  with r show ?thesis by blast
qed

lemma dedupVersions_nonempty: "vs \<noteq> [] \<Longrightarrow> dedupVersions [] vs \<noteq> []"
  by (cases vs) simp_all

lemma specNormalize_versions:
  "versions p \<noteq> [] \<Longrightarrow> versions (specNormalizePackage p) \<noteq> []"
proof -
  assume "versions p \<noteq> []"
  then have "dedupVersions [] (versions p) \<noteq> []"
    by (rule dedupVersions_nonempty)
  then have "sort_key releasedAt (dedupVersions [] (versions p)) \<noteq> []"
    by (metis length_sort length_0_conv)
  then show ?thesis by (simp add: specNormalizePackage_def Let_def)
qed

lemma specNormalize_identifier: "identifier' (specNormalizePackage p) = identifier' p"
  by (simp add: specNormalizePackage_def Let_def)

lemma demoWorld_normalize: "normalizePackage demoWorld = specNormalizePackage"
  by (simp add: demoWorld_def)

text \<open>Every package emitted has a version, provided \<^verbatim>\<open>normalizePackage\<close> leaves at least
  one version when there is one.\<close>

lemma emitted_versions_nonempty:
  assumes nz: "\<And>p. versions p \<noteq> [] \<Longrightarrow> versions (normalizePackage w p) \<noteq> []"
    and p: "p \<in> set (fst (LeviLaminaFetcher_fetch w)) \<or> p \<in> set (fst (EndstonePythonFetcher_fetch w))"
  shows "versions p \<noteq> []"
proof -
  from p have "\<exists>raw. p = normalizePackage w raw \<and> versions raw \<noteq> []"
  proof
    assume "p \<in> set (fst (LeviLaminaFetcher_fetch w))"
    then obtain r' where "fst (LeviLaminaFetcher_fetchPackage w r') = Inr (Some p)"
      using LeviLamina_emitted by blast
    then show ?thesis
      using LeviLamina_fetchPackage_Some[of w r' p]
      by (auto simp: LeviLaminaFetcher_packageInfo_def)
  next
    assume "p \<in> set (fst (EndstonePythonFetcher_fetch w))"
    then obtain r' where "EndstonePythonFetcher_fetchPackage w r' = Inr (Some p)"
      using Endstone_emitted by blast
    then show ?thesis
      using Endstone_fetchPackage_Some[of w r' p]
      by (auto simp: EndstonePythonFetcher_packageInfo_def)
  qed
  then show ?thesis using nz by auto
qed

text \<open>
  A LeviLamina candidate none of whose four promises rejects resolves to absent when
  \<^verbatim>\<open>tooth.json\<close> at \<^verbatim>\<open>HEAD\<close> is absent or the version list is empty, and adds nothing to the
  output. So does an Endstone candidate whose promises all resolve and whose version list
  is empty.
\<close>

lemma LeviLamina_absent:
  assumes "getRepo w r = Inr repository" and "listRepoContributors w r = Inr cs"
    and "fetchTooth w r ''HEAD'' = Inr t" and "fetchVersions w r = Inr (vs, lg)"
    and "t = None \<or> vs = []"
  shows "LeviLaminaFetcher_fetchPackage w r = (Inr None, lg)"
    and "fst (LeviLaminaFetcher_adds w r) = []"
  using assms
  by (auto simp: LeviLaminaFetcher_fetchPackage_def LeviLamina_adds_cases Let_def
      split: option.splits)

lemma Endstone_absent:
  assumes "fetchRepository w r = Inr repository" and "fetchRepositoryContributors w r = Inr cs"
    and "fetchRepositoryVersions w r = Inr rvs" and "fetchPyprojectMetadata w r = Inr meta"
    and "fetchPypiPackageMetadata w (project_name meta) = Inr pypi"
    and "endstoneVersions w rvs pypi = Inr []"
  shows "EndstonePythonFetcher_fetchPackage w r = Inr None"
    and "fst (EndstonePythonFetcher_adds w r) = []"
  using assms
  by (auto simp: EndstonePythonFetcher_fetchPackage_def Endstone_adds_cases Let_def)

text \<open>
  Claim C6, where the code departs from it. The Endstone candidate
  \<^verbatim>\<open>endstone-dev/no-manifest\<close> has no \<^verbatim>\<open>pyproject.toml\<close>: the request is answered with the
  status 404. \<^verbatim>\<open>fetchPyprojectMetadata\<close> does not test \<^verbatim>\<open>response.ok\<close> and hands the body of
  the error page to \<^verbatim>\<open>toml.parse\<close>, which throws; \<^verbatim>\<open>fetchPackage\<close> rejects, and \<^verbatim>\<open>fetch\<close>
  logs an error for the candidate, which does not resolve to absent. The candidate adds
  nothing to the output. Where the other manifests and the registry are read, a response
  that is not \<^verbatim>\<open>ok\<close> gives \<^verbatim>\<open>null\<close>: a LeviLamina candidate without \<^verbatim>\<open>tooth.json\<close> resolves
  to absent, with nothing logged.
\<close>

theorem missing_pyproject_rejected:
  "globalFetch demoWorld ''https://raw.githubusercontent.com/endstone-dev/no-manifest/HEAD/pyproject.toml'' =
     Inr \<lparr>ok = False, status = 404, statusText = ''Not Found'', body = ''404: Not Found''\<rparr> \<and>
   fetchPyprojectMetadata demoWorld \<lparr>owner = ''endstone-dev'', repo = ''no-manifest''\<rparr> =
     Inl (Thrown ''SyntaxError'') \<and>
   EndstonePythonFetcher_fetchPackage demoWorld \<lparr>owner = ''endstone-dev'', repo = ''no-manifest''\<rparr> =
     Inl (Thrown ''SyntaxError'') \<and>
   EndstonePythonFetcher_adds demoWorld \<lparr>owner = ''endstone-dev'', repo = ''no-manifest''\<rparr> =
     ([], [(''Error fetching Endstone Python package github.com/endstone-dev/no-manifest:'',
            Thrown ''SyntaxError'')]) \<and>
   fetchPypiPackageMetadata demoWorld ''endstone-unreleased'' = Inr None \<and>
   EndstonePythonFetcher_adds demoWorld \<lparr>owner = ''endstone-dev'', repo = ''no-releases''\<rparr> = ([], []) \<and>
   fetchTooth demoWorld \<lparr>owner = ''futrime'', repo = ''no-tooth''\<rparr> ''HEAD'' = Inr None \<and>
   LeviLaminaFetcher_fetchPackage demoWorld \<lparr>owner = ''futrime'', repo = ''no-tooth''\<rparr> = (Inr None, {#}) \<and>
   LeviLaminaFetcher_adds demoWorld \<lparr>owner = ''futrime'', repo = ''no-tooth''\<rparr> = ([], {#})"
  by code_simp

subsection \<open>The platform repository\<close>

lemma platform_identifier:
  assumes "''github.com/'' @ ow @ ''/'' @ rp = ''github.com/LiteLDev/LeviLamina''"
  shows "ow = ''LiteLDev'' \<and> rp = ''LeviLamina''"
proof -
  from assms have e: "ow @ CHR ''/'' # rp = ''LiteLDev'' @ CHR ''/'' # ''LeviLamina''" by simp
  have "takeWhile (\<lambda>c. c \<noteq> CHR ''/'') (ow @ CHR ''/'' # rp) = ''LiteLDev''"
    unfolding e by simp
  moreover have "takeWhile (\<lambda>c. c \<noteq> CHR ''/'') (ow @ CHR ''/'' # rp) = takeWhile (\<lambda>c. c \<noteq> CHR ''/'') ow"
    by (induction ow) auto
  ultimately have t: "takeWhile (\<lambda>c. c \<noteq> CHR ''/'') ow = ''LiteLDev''" by simp
  obtain d where ow: "ow = ''LiteLDev'' @ d"
    using takeWhile_dropWhile_id[of "\<lambda>c. c \<noteq> CHR ''/''" ow] t by metis
  from e ow have d: "d @ CHR ''/'' # rp = CHR ''/'' # ''LeviLamina''" by simp
  show ?thesis
  proof (cases d)
    case Nil
    with d ow show ?thesis by simp
  next
    case (Cons c d')
    with d have "d' @ CHR ''/'' # rp = ''LeviLamina''" by simp
    then have "CHR ''/'' \<in> set ''LeviLamina''" by (metis in_set_conv_decomp)
    then show ?thesis by simp
  qed
qed

text \<open>
  Claim C9. No package emitted by the LeviLamina fetcher has the identifier
  \<^verbatim>\<open>github.com/LiteLDev/LeviLamina\<close>, provided \<^verbatim>\<open>normalizePackage\<close> keeps the identifier:
  the candidate is skipped, and no other owner and repository give that identifier.
\<close>

theorem platform_repository_skipped:
  assumes idp: "\<And>p. identifier' (normalizePackage w p) = identifier' p"
  shows "\<forall>p \<in> set (fst (LeviLaminaFetcher_fetch w)). identifier' p \<noteq> ''github.com/LiteLDev/LeviLamina''"
proof
  fix p
  assume "p \<in> set (fst (LeviLaminaFetcher_fetch w))"
  then obtain r where ns: "\<not> (owner r = ''LiteLDev'' \<and> repo r = ''LeviLamina'')"
    and fp: "fst (LeviLaminaFetcher_fetchPackage w r) = Inr (Some p)"
    using LeviLamina_emitted by blast
  from fp have "identifier' p = ''github.com/'' @ owner r @ ''/'' @ repo r"
    using LeviLamina_fetchPackage_Some[of w r p] idp
    by (auto simp: LeviLaminaFetcher_packageInfo_def)
  then show "identifier' p \<noteq> ''github.com/LiteLDev/LeviLamina''"
    using ns platform_identifier[of "owner r" "repo r"] by metis
qed

theorem platform_repository_skipped_witness:
  "\<lparr>owner = ''LiteLDev'', repo = ''LeviLamina''\<rparr> \<in> set (fst (searchForRepo demoWorld LeviLaminaFetcher_query)) \<and>
   map identifier' (fst (LeviLaminaFetcher_fetch demoWorld)) = [''github.com/futrime/better-things''] \<and>
   ''github.com/LiteLDev/LeviLamina'' \<notin> set (map identifier' (fst (LeviLaminaFetcher_fetch demoWorld)))"
proof -
  have idp: "\<And>p. identifier' (normalizePackage demoWorld p) = identifier' p"
    by (simp add: demoWorld_normalize specNormalize_identifier)
  have c: "\<lparr>owner = ''LiteLDev'', repo = ''LeviLamina''\<rparr> \<in> set (fst (searchForRepo demoWorld LeviLaminaFetcher_query))"
    by (simp add: demoWorld_def)
  have e: "map identifier' (fst (LeviLaminaFetcher_fetch demoWorld)) = [''github.com/futrime/better-things'']"
    by code_simp
  have n: "''github.com/LiteLDev/LeviLamina'' \<notin> set (map identifier' (fst (LeviLaminaFetcher_fetch demoWorld)))"
    using platform_repository_skipped[of demoWorld, OF idp] by auto
  from c e n show ?thesis by blast
qed

subsection \<open>Failures of single candidates\<close>

text \<open>
  Claim C7, as the code has it. When the resolution of a candidate throws, the error is
  caught and \<^verbatim>\<open>fetch\<close> logs one entry for the candidate, with the error thrown; when the
  resolution gives no package, \<^verbatim>\<open>fetch\<close> logs nothing for the candidate. In both cases the
  run goes on: the output is the output for the candidates before it followed by the
  output for the candidates after it, the error log holds the entries of the candidates
  before and after it and what \<^verbatim>\<open>fetchVersions\<close> logged for the candidate, and the run
  ends with an error only when discovery does. For the LeviLamina fetcher the log is
  given up to the order of its entries.
\<close>

theorem failure_isolation:
  "(searchForRepo w LeviLaminaFetcher_query = (before @ r # after, failure) \<and>
    \<not> (owner r = ''LiteLDev'' \<and> repo r = ''LeviLamina'') \<longrightarrow>
      (\<forall>e l. LeviLaminaFetcher_fetchPackage w r = (Inl e, l) \<longrightarrow>
         LeviLaminaFetcher_fetch w =
           (fst (LeviLaminaFetcher_loop w [] {#} before) @ fst (LeviLaminaFetcher_loop w [] {#} after),
            snd (LeviLaminaFetcher_loop w [] {#} before) + l +
              {#(''Failed to fetch package '' @ owner r @ ''/'' @ repo r @ '':'', e)#} +
              snd (LeviLaminaFetcher_loop w [] {#} after),
            failure)) \<and>
      (\<forall>l. LeviLaminaFetcher_fetchPackage w r = (Inr None, l) \<longrightarrow>
         LeviLaminaFetcher_fetch w =
           (fst (LeviLaminaFetcher_loop w [] {#} before) @ fst (LeviLaminaFetcher_loop w [] {#} after),
            snd (LeviLaminaFetcher_loop w [] {#} before) + l + snd (LeviLaminaFetcher_loop w [] {#} after),
            failure))) \<and>
   (searchForRepositories w EndstonePythonFetcher_query = (before @ r # after, failure) \<longrightarrow>
      (\<forall>e. EndstonePythonFetcher_fetchPackage w r = Inl e \<longrightarrow>
         EndstonePythonFetcher_fetch w =
           (fst (EndstonePythonFetcher_loop w [] [] before) @ fst (EndstonePythonFetcher_loop w [] [] after),
            snd (EndstonePythonFetcher_loop w [] [] before) @
              [(''Error fetching Endstone Python package github.com/'' @ owner r @ ''/'' @ repo r @ '':'', e)] @
              snd (EndstonePythonFetcher_loop w [] [] after),
            failure)) \<and>
      (EndstonePythonFetcher_fetchPackage w r = Inr None \<longrightarrow>
         EndstonePythonFetcher_fetch w =
           (fst (EndstonePythonFetcher_loop w [] [] before) @ fst (EndstonePythonFetcher_loop w [] [] after),
            snd (EndstonePythonFetcher_loop w [] [] before) @ snd (EndstonePythonFetcher_loop w [] [] after),
            failure)))"
  by (simp add: LeviLamina_fetch_concat Endstone_fetch_concat LeviLamina_loop_concat
      Endstone_loop_concat LeviLamina_adds_cases Endstone_adds_cases
      del: LeviLaminaFetcher_loop.simps EndstonePythonFetcher_loop.simps)

theorem failure_isolation_witness:
  "searchForRepo demoWorld LeviLaminaFetcher_query =
     ([\<lparr>owner = ''LiteLDev'', repo = ''LeviLamina''\<rparr>, \<lparr>owner = ''futrime'', repo = ''no-tooth''\<rparr>] @
      \<lparr>owner = ''futrime'', repo = ''broken''\<rparr> # [\<lparr>owner = ''futrime'', repo = ''better-things''\<rparr>], None) \<and>
   getRepo demoWorld \<lparr>owner = ''futrime'', repo = ''broken''\<rparr> = Inl (HttpError 500 ''Server Error'') \<and>
   listRepoContributors demoWorld \<lparr>owner = ''futrime'', repo = ''broken''\<rparr> =
     Inl (HttpError 502 ''Bad Gateway'') \<and>
   LeviLaminaFetcher_fetchPackage demoWorld \<lparr>owner = ''futrime'', repo = ''broken''\<rparr> =
     (Inl (HttpError 502 ''Bad Gateway''),
      {#(''Failed to fetch version v0.2.0 for package futrime/broken:'', Thrown ''RangeError'')#}) \<and>
   LeviLaminaFetcher_fetchPackage demoWorld \<lparr>owner = ''futrime'', repo = ''no-tooth''\<rparr> = (Inr None, {#}) \<and>
   map identifier' (fst (LeviLaminaFetcher_fetch demoWorld)) = [''github.com/futrime/better-things''] \<and>
   fst (snd (LeviLaminaFetcher_fetch demoWorld)) =
     {#(''Failed to fetch version v0.2.0 for package futrime/broken:'', Thrown ''RangeError''),
       (''Failed to fetch package futrime/broken:'', HttpError 502 ''Bad Gateway'')#} \<and>
   EndstonePythonFetcher_fetchPackage demoWorld \<lparr>owner = ''endstone-dev'', repo = ''no-manifest''\<rparr> =
     Inl (Thrown ''SyntaxError'') \<and>
   EndstonePythonFetcher_fetchPackage demoWorld \<lparr>owner = ''endstone-dev'', repo = ''no-releases''\<rparr> = Inr None \<and>
   map identifier' (fst (EndstonePythonFetcher_fetch demoWorld)) = [''github.com/endstone-dev/example-plugin''] \<and>
   fst (snd (EndstonePythonFetcher_fetch demoWorld)) =
     [(''Error fetching Endstone Python package github.com/endstone-dev/no-manifest:'', Thrown ''SyntaxError'')] \<and>
   fst (LeviLaminaFetcher_fetch demoWorld) =
     fst (LeviLaminaFetcher_loop demoWorld [] {#} [\<lparr>owner = ''LiteLDev'', repo = ''LeviLamina''\<rparr>]) @
     fst (LeviLaminaFetcher_loop demoWorld [] {#}
            [\<lparr>owner = ''futrime'', repo = ''broken''\<rparr>, \<lparr>owner = ''futrime'', repo = ''better-things''\<rparr>]) \<and>
   fst (EndstonePythonFetcher_fetch demoWorld) =
     fst (EndstonePythonFetcher_loop demoWorld [] []
            [\<lparr>owner = ''endstone-dev'', repo = ''no-manifest''\<rparr>,
             \<lparr>owner = ''endstone-dev'', repo = ''example-plugin''\<rparr>])"
proof -
  let ?ll = "\<lparr>owner = ''LiteLDev'', repo = ''LeviLamina''\<rparr>"
  let ?nt = "\<lparr>owner = ''futrime'', repo = ''no-tooth''\<rparr>"
  let ?br = "\<lparr>owner = ''futrime'', repo = ''broken''\<rparr>"
  let ?bt = "\<lparr>owner = ''futrime'', repo = ''better-things''\<rparr>"
  let ?nr = "\<lparr>owner = ''endstone-dev'', repo = ''no-releases''\<rparr>"
  let ?nm = "\<lparr>owner = ''endstone-dev'', repo = ''no-manifest''\<rparr>"
  let ?ep = "\<lparr>owner = ''endstone-dev'', repo = ''example-plugin''\<rparr>"
  let ?ve = "(''Failed to fetch version v0.2.0 for package futrime/broken:'', Thrown ''RangeError'')"
  have s1: "searchForRepo demoWorld LeviLaminaFetcher_query = ([?ll, ?nt] @ ?br # [?bt], None)"
    and s1': "searchForRepo demoWorld LeviLaminaFetcher_query = ([?ll] @ ?nt # [?br, ?bt], None)"
    and s2: "searchForRepositories demoWorld EndstonePythonFetcher_query = ([?nr] @ ?nm # [?ep], None)"
    and s2': "searchForRepositories demoWorld EndstonePythonFetcher_query = ([] @ ?nr # [?nm, ?ep], None)"
    by (simp_all add: demoWorld_def)
  have n: "\<not> (owner ?br = ''LiteLDev'' \<and> repo ?br = ''LeviLamina'')"
    "\<not> (owner ?nt = ''LiteLDev'' \<and> repo ?nt = ''LeviLamina'')"
    by simp_all
  have g: "getRepo demoWorld ?br = Inl (HttpError 500 ''Server Error'')"
    "listRepoContributors demoWorld ?br = Inl (HttpError 502 ''Bad Gateway'')"
    by code_simp+
  have f1: "LeviLaminaFetcher_fetchPackage demoWorld ?br = (Inl (HttpError 502 ''Bad Gateway''), {#?ve#})"
    by code_simp
  have f2: "LeviLaminaFetcher_fetchPackage demoWorld ?nt = (Inr None, {#})"
    by code_simp
  have f3: "EndstonePythonFetcher_fetchPackage demoWorld ?nm = Inl (Thrown ''SyntaxError'')"
    by code_simp
  have f4: "EndstonePythonFetcher_fetchPackage demoWorld ?nr = Inr None"
    by code_simp
  have b1: "LeviLaminaFetcher_loop demoWorld [] {#} [?ll, ?nt] = ([], {#})"
    by code_simp
  have a1: "map identifier' (fst (LeviLaminaFetcher_loop demoWorld [] {#} [?bt])) = [''github.com/futrime/better-things'']"
    "snd (LeviLaminaFetcher_loop demoWorld [] {#} [?bt]) = {#}"
    by code_simp+
  have b2: "EndstonePythonFetcher_loop demoWorld [] [] [?nr] = ([], [])"
    by code_simp
  have a2: "map identifier' (fst (EndstonePythonFetcher_loop demoWorld [] [] [?ep])) = [''github.com/endstone-dev/example-plugin'']"
    "snd (EndstonePythonFetcher_loop demoWorld [] [] [?ep]) = []"
    by code_simp+
  from failure_isolation[of demoWorld "[?ll, ?nt]" ?br "[?bt]" None] s1 n f1
  have e1: "LeviLaminaFetcher_fetch demoWorld =
        (fst (LeviLaminaFetcher_loop demoWorld [] {#} [?ll, ?nt]) @ fst (LeviLaminaFetcher_loop demoWorld [] {#} [?bt]),
         snd (LeviLaminaFetcher_loop demoWorld [] {#} [?ll, ?nt]) + {#?ve#} +
           {#(''Failed to fetch package '' @ owner ?br @ ''/'' @ repo ?br @ '':'', HttpError 502 ''Bad Gateway'')#} +
           snd (LeviLaminaFetcher_loop demoWorld [] {#} [?bt]), None)"
    by blast
  from failure_isolation[of demoWorld "[?nr]" ?nm "[?ep]" None] s2 f3
  have e2: "EndstonePythonFetcher_fetch demoWorld =
        (fst (EndstonePythonFetcher_loop demoWorld [] [] [?nr]) @ fst (EndstonePythonFetcher_loop demoWorld [] [] [?ep]),
         snd (EndstonePythonFetcher_loop demoWorld [] [] [?nr]) @
           [(''Error fetching Endstone Python package github.com/'' @ owner ?nm @ ''/'' @ repo ?nm @ '':'', Thrown ''SyntaxError'')] @
           snd (EndstonePythonFetcher_loop demoWorld [] [] [?ep]), None)"
    by blast
  from failure_isolation[of demoWorld "[?ll]" ?nt "[?br, ?bt]" None] s1' n f2
  have e3: "LeviLaminaFetcher_fetch demoWorld =
        (fst (LeviLaminaFetcher_loop demoWorld [] {#} [?ll]) @ fst (LeviLaminaFetcher_loop demoWorld [] {#} [?br, ?bt]),
         snd (LeviLaminaFetcher_loop demoWorld [] {#} [?ll]) + {#} +
           snd (LeviLaminaFetcher_loop demoWorld [] {#} [?br, ?bt]), None)"
    by blast
  from failure_isolation[of demoWorld "[]" ?nr "[?nm, ?ep]" None] s2' f4
  have e4: "EndstonePythonFetcher_fetch demoWorld =
        (fst (EndstonePythonFetcher_loop demoWorld [] [] []) @ fst (EndstonePythonFetcher_loop demoWorld [] [] [?nm, ?ep]),
         snd (EndstonePythonFetcher_loop demoWorld [] [] []) @
           snd (EndstonePythonFetcher_loop demoWorld [] [] [?nm, ?ep]), None)"
    by blast
  have k1: "map identifier' (fst (LeviLaminaFetcher_fetch demoWorld)) = [''github.com/futrime/better-things'']"
    and k2: "fst (snd (LeviLaminaFetcher_fetch demoWorld)) =
       {#?ve, (''Failed to fetch package futrime/broken:'', HttpError 502 ''Bad Gateway'')#}"
    unfolding e1 using a1
    by (simp_all add: b1 del: LeviLaminaFetcher_loop.simps)
  have k3: "map identifier' (fst (EndstonePythonFetcher_fetch demoWorld)) = [''github.com/endstone-dev/example-plugin'']"
    and k4: "fst (snd (EndstonePythonFetcher_fetch demoWorld)) =
       [(''Error fetching Endstone Python package github.com/endstone-dev/no-manifest:'', Thrown ''SyntaxError'')]"
    unfolding e2 using a2
    by (simp_all add: b2 del: EndstonePythonFetcher_loop.simps)
  have k5: "fst (LeviLaminaFetcher_fetch demoWorld) =
       fst (LeviLaminaFetcher_loop demoWorld [] {#} [?ll]) @ fst (LeviLaminaFetcher_loop demoWorld [] {#} [?br, ?bt])"
    by (subst e3) (simp only: fst_conv)
  have k6: "fst (EndstonePythonFetcher_fetch demoWorld) =
       fst (EndstonePythonFetcher_loop demoWorld [] [] [?nm, ?ep])"
    by (subst e4) (simp del: EndstonePythonFetcher_loop.simps(2))
  from s1 g f1 f2 k1 k2 f3 f4 k3 k4 k5 k6 show ?thesis by blast
qed

text \<open>
  The claim as stated fails where it says that a not-found result is logged: the
  candidate \<^verbatim>\<open>futrime/no-tooth\<close> has no \<^verbatim>\<open>tooth.json\<close> at \<^verbatim>\<open>HEAD\<close> and resolves to no
  package, and the error log of the run has the two entries of another candidate only.
\<close>

theorem failure_logging_counterexample:
  "\<lparr>owner = ''futrime'', repo = ''no-tooth''\<rparr> \<in> set (fst (searchForRepo demoWorld LeviLaminaFetcher_query)) \<and>
   fetchTooth demoWorld \<lparr>owner = ''futrime'', repo = ''no-tooth''\<rparr> ''HEAD'' = Inr None \<and>
   LeviLaminaFetcher_fetchPackage demoWorld \<lparr>owner = ''futrime'', repo = ''no-tooth''\<rparr> = (Inr None, {#}) \<and>
   fst (snd (LeviLaminaFetcher_fetch demoWorld)) =
     {#(''Failed to fetch version v0.2.0 for package futrime/broken:'', Thrown ''RangeError''),
       (''Failed to fetch package futrime/broken:'', HttpError 502 ''Bad Gateway'')#}"
  by code_simp

subsection \<open>Version strings\<close>

lemma versionOf_version:
  assumes "versionOf w r line = Inr (Some v)"
  shows "version v = deleteAll ''+incompatible'' 0 (removeLeadingV line)"
  using assms unfolding versionOf_def Let_def
  by (auto split: sum.splits option.splits)

lemma versionLoop_mem:
  assumes "v \<in> set (fst (versionLoop w r acc lg ls))"
  shows "v \<in> set acc \<or> (\<exists>line \<in> set ls. versionOf w r line = Inr (Some v))"
  using assms
proof (induction ls arbitrary: acc lg)
  case Nil
  then show ?case by simp
next
  case (Cons line ls)
  show ?case
  proof (cases "versionOf w r line")
    case (Inl e)
    with Cons.prems Cons.IH show ?thesis by auto
  next
    case (Inr vo)
    show ?thesis
    proof (cases vo)
      case None
      with Inr Cons.prems Cons.IH show ?thesis by auto
    next
      case (Some v')
      with Inr Cons.prems Cons.IH[of "acc @ [v']" lg] show ?thesis by auto
    qed
  qed
qed

lemma deleteAll_no_plus:
  "CHR ''+'' \<notin> set x \<Longrightarrow> deleteAll ''+incompatible'' 0 x = x"
  by (induction x) auto

lemma deleteAll_incompatible: "deleteAll ''+incompatible'' 0 ''+incompatible'' = []"
  by simp

lemma deleteAll_suffix:
  "CHR ''+'' \<notin> set x \<Longrightarrow> deleteAll ''+incompatible'' 0 (x @ ''+incompatible'') = x"
proof (induction x)
  case Nil
  show ?case using deleteAll_incompatible by simp
next
  case (Cons c x)
  then show ?case by auto
qed

lemma takeWhile_Cons_hd: "takeWhile P xs = y # ys \<Longrightarrow> \<exists>zs. xs = y # zs"
  by (cases xs) (auto split: if_splits)

lemma split_hd: "split c s = a # rest \<Longrightarrow> a = takeWhile (\<lambda>x. x \<noteq> c) s"
  using split_nonempty[of c]
  by (induction s arbitrary: a rest) (auto split: if_splits list.splits)

lemma not_digit_v: "\<not> is_digit CHR ''v''"
  by (simp add: is_digit_def)

lemma semver_no_leading_v:
  assumes "isSemVer x"
  shows "\<not> startsWith x CHR ''v''"
proof -
  let ?main = "takeWhile (\<lambda>c. c \<noteq> CHR ''+'') x"
  let ?core = "takeWhile (\<lambda>c. c \<noteq> CHR ''-'') ?main"
  from assms have "versionCore ?core" by (simp add: isSemVer_def Let_def)
  then obtain a rest where s: "split CHR ''.'' ?core = a # rest" and n: "numericIdentifier a"
    by (auto simp: versionCore_def split: list.splits)
  from n obtain y ys where a: "a = y # ys" and d: "is_digit y"
    by (cases a) (auto simp: numericIdentifier_def)
  from split_hd[OF s] a have "takeWhile (\<lambda>x. x \<noteq> CHR ''.'') ?core = y # ys" by simp
  then obtain z1 where "?core = y # z1" using takeWhile_Cons_hd by fast
  then obtain z2 where "?main = y # z2" using takeWhile_Cons_hd by fast
  then obtain z3 where "x = y # z3" using takeWhile_Cons_hd by fast
  then show ?thesis using d not_digit_v by auto
qed

text \<open>
  Every version record of \<^verbatim>\<open>LeviLaminaFetcher.fetchVersions\<close> comes from a line of the
  proxy's list, trimmed and not empty, and its version field is that line without one
  leading \<open>v\<close> and without the occurrences of \<^verbatim>\<open>+incompatible\<close>.
\<close>

lemma fetchVersions_version:
  assumes "fetchVersions w r = Inr (vs, lg)" and "v \<in> set vs"
  shows "\<exists>response line.
           globalFetch w (''https://goproxy.io/github.com/'' @ escapeForGoProxy (owner r) @ ''/'' @
                          escapeForGoProxy (repo r) @ ''/@v/list'') = Inr response \<and>
           line \<in> set (goproxyVersionStrList (body response)) \<and>
           versionOf w r line = Inr (Some v) \<and>
           version v = deleteAll ''+incompatible'' 0 (removeLeadingV line)"
proof -
  from assms(1) obtain response
    where f: "globalFetch w (''https://goproxy.io/github.com/'' @ escapeForGoProxy (owner r) @ ''/'' @
                            escapeForGoProxy (repo r) @ ''/@v/list'') = Inr response"
      and l: "versionLoop w r [] {#} (goproxyVersionStrList (body response)) = (vs, lg)"
    by (auto simp: fetchVersions_def Let_def split: sum.splits)
  from l assms(2)
  have "v \<in> set (fst (versionLoop w r [] {#} (goproxyVersionStrList (body response))))" by simp
  then obtain line where "line \<in> set (goproxyVersionStrList (body response))"
    and "versionOf w r line = Inr (Some v)"
    using versionLoop_mem[of v w r "[]" "{#}" "goproxyVersionStrList (body response)"] by auto
  with f versionOf_version show ?thesis by blast
qed

text \<open>When the line is \<open>v\<close> followed by a semantic version without build metadata, with or
  without the suffix \<^verbatim>\<open>+incompatible\<close>, what remains is that semantic version, which has no
  leading \<open>v\<close>.\<close>

lemma semver_line_stripped:
  assumes "isSemVer x" and "\<not> hasBuildMetadata x"
    and "line = ''v'' @ x \<or> line = ''v'' @ x @ ''+incompatible''"
  shows "deleteAll ''+incompatible'' 0 (removeLeadingV line) = x" and "\<not> startsWith x CHR ''v''"
proof -
  from assms(2) have np: "CHR ''+'' \<notin> set x" by (simp add: hasBuildMetadata_def)
  from assms(3) show "deleteAll ''+incompatible'' 0 (removeLeadingV line) = x"
    using deleteAll_no_plus[OF np] deleteAll_suffix[OF np] by auto
  from assms(1) show "\<not> startsWith x CHR ''v''" by (rule semver_no_leading_v)
qed

text \<open>
  Claim C5, where the code departs from it. The Endstone fetcher copies the tag names of
  the releases: the release of \<^verbatim>\<open>endstone-dev/example-plugin\<close> tagged \<^verbatim>\<open>v0.4.0\<close> gives a
  version record with the version \<^verbatim>\<open>v0.4.0\<close>, which has a leading \<open>v\<close> and is not a
  semantic version, and the package is emitted with it, beside the version \<^verbatim>\<open>0.4.0\<close> that
  the registry gives for the same release. The LeviLamina fetcher removes the leading \<open>v\<close>:
  the lines \<^verbatim>\<open>v1.0.0\<close> and \<^verbatim>\<open>v1.1.0+incompatible\<close> of the proxy's list give the versions
  \<^verbatim>\<open>1.0.0\<close> and \<^verbatim>\<open>1.1.0\<close>, and so does the read API with the same list.
\<close>

theorem release_tag_name_copied:
  "fetchRepositoryVersions demoWorld \<lparr>owner = ''endstone-dev'', repo = ''example-plugin''\<rparr> =
     Inr [\<lparr>tag_name = ''v0.4.0'', published_at = Some ''2024-03-01T00:00:00.000Z'',
           created_at = ''2024-02-28T00:00:00.000Z''\<rparr>] \<and>
   githubVersions demoWorld
     [\<lparr>tag_name = ''v0.4.0'', published_at = Some ''2024-03-01T00:00:00.000Z'',
       created_at = ''2024-02-28T00:00:00.000Z''\<rparr>] =
     Inr [\<lparr>version = ''v0.4.0'', releasedAt = ''2024-03-01T00:00:00.000Z'', source = ''github'',
           packageManager = ''pip'', platformVersionRequirement = None\<rparr>] \<and>
   map version (concat (map versions (fst (EndstonePythonFetcher_fetch demoWorld)))) =
     [''0.4.0'', ''v0.4.0''] \<and>
   startsWith ''v0.4.0'' CHR ''v'' \<and> \<not> isSemVer ''v0.4.0'' \<and> isSemVer ''0.4.0'' \<and>
   map version (fst (versionLoop demoWorld \<lparr>owner = ''futrime'', repo = ''better-things''\<rparr> [] {#}
                       [''v1.0.0'', ''v1.1.0+incompatible''])) = [''1.0.0'', ''1.1.0''] \<and>
   map (\<lambda>tag. removeIncompatibleSuffix (removeLeadingV tag)) [''v1.0.0'', ''v1.1.0+incompatible''] =
     [''1.0.0'', ''1.1.0'']"
  by code_simp

section \<open>Properties of the read API\<close>

subsection \<open>The README of a response\<close>

lemma promiseAll_Inr: "promiseAll k (map Inr rs) = Inr rs"
proof -
  have "concat (map rejectionOf (map Inr rs)) = []" and "fulfilled (map Inr rs) = rs"
    by (induction rs) simp_all
  then show ?thesis by (simp add: promiseAll_def)
qed

lemma firstReadme_filter:
  "firstReadme rs = (case filter (\<lambda>r. r \<noteq> None) rs of [] \<Rightarrow> None | r # _ \<Rightarrow> r)"
  by (induction rs) (auto split: option.splits)

lemma firstReadme_all_None: "list_all (\<lambda>r. r = None) rs \<Longrightarrow> firstReadme rs = None"
  by (induction rs) simp_all

lemma setAddAll_set: "set (setAddAll seen xs) = set seen \<union> set xs"
  by (induction xs arbitrary: seen) auto

lemma setAddAll_distinct: "distinct seen \<Longrightarrow> distinct (setAddAll seen xs)"
  by (induction xs arbitrary: seen) auto

lemma setAddAll_Cons: "setAddAll (a # seen) xs = a # setAddAll seen (removeAll a xs)"
  by (induction xs arbitrary: seen) auto

lemma newSet_Cons: "newSet (x # xs) = x # newSet (removeAll x xs)"
  using setAddAll_Cons[of x "[]" xs] by (simp add: newSet_def)

lemma newSet_distinct: "distinct (newSet xs)"
  by (simp add: newSet_def setAddAll_distinct)

lemma newSet_set: "set (newSet xs) = set xs"
  by (simp add: newSet_def setAddAll_set)

lemma fetchReadme_requests:
  "snd (fetchReadme env ow rp v langs) =
     map (\<lambda>l. ''https://raw.githubusercontent.com/'' @ ow @ ''/'' @ rp @ ''/v'' @ v @ ''/README.'' @ l @ ''.md'') langs @
     [''https://raw.githubusercontent.com/'' @ ow @ ''/'' @ rp @ ''/v'' @ v @ ''/README.md'']"
  by (induction langs) (simp_all add: fetchReadme_def fetchReadmeForLang_def Let_def)

lemma fetchReadme_result:
  assumes "map (\<lambda>lang. fst (fetchReadmeForLang env ow rp v lang)) (map Some langs @ [None]) = map Inr readmeList"
  shows "fst (fetchReadme env ow rp v langs) = Inr (firstReadme readmeList)"
proof -
  have "map fst (map (\<lambda>lang. fetchReadmeForLang env ow rp v (Some lang)) langs @
                 [fetchReadmeForLang env ow rp v None]) =
        map (\<lambda>lang. fst (fetchReadmeForLang env ow rp v lang)) (map Some langs @ [None])"
    by (simp add: comp_def)
  then show ?thesis
    using assms by (simp only: fetchReadme_def Let_def fst_conv promiseAll_Inr sum.case)
qed

text \<open>
  Claim C10. For a request that passes the two checks, whose metadata and version list
  are fetched, and none of whose README requests is rejected: the README requests are
  those for \<^verbatim>\<open>README.<lang>.md\<close>, one for each distinct language code in the order of first
  occurrence, followed by the one for \<^verbatim>\<open>README.md\<close>; the response is a success whose
  \<open>readme\<close> is the first of their results that is not null, and null when all of them are.
\<close>

theorem readme_fallback:
  assumes tp: "TOOTH_PATH_REGEXP_exec (params_tooth req) = Some (ow, rp)"
    and vv: "isValidVersionString env (params_version req)"
    and md: "fst (fetchToothMetadata env ow rp (params_version req)) = Inr toothMetadata"
    and vl: "fst (fetchVersionList env ow rp) = Inr versionList"
    and rs: "map (\<lambda>lang. fst (fetchReadmeForLang env ow rp (params_version req) lang))
               (map Some (newSet (acceptLanguageCodes env (accept_language req))) @ [None]) =
             map Inr readmeList"
  shows "\<exists>d. fst (handler env req) = Success d \<and>
           data_readme d = (case filter (\<lambda>r. r \<noteq> None) readmeList of [] \<Rightarrow> None | r # _ \<Rightarrow> r) \<and>
           (list_all (\<lambda>r. r = None) readmeList \<longrightarrow> data_readme d = None) \<and>
           snd (fetchReadme env ow rp (params_version req) (newSet (acceptLanguageCodes env (accept_language req)))) =
             map (\<lambda>l. ''https://raw.githubusercontent.com/'' @ ow @ ''/'' @ rp @ ''/v'' @
                       params_version req @ ''/README.'' @ l @ ''.md'')
               (newSet (acceptLanguageCodes env (accept_language req))) @
             [''https://raw.githubusercontent.com/'' @ ow @ ''/'' @ rp @ ''/v'' @
              params_version req @ ''/README.md''] \<and>
           distinct (newSet (acceptLanguageCodes env (accept_language req))) \<and>
           set (newSet (acceptLanguageCodes env (accept_language req))) =
             set (acceptLanguageCodes env (accept_language req)) \<and>
           (case acceptLanguageCodes env (accept_language req) of
              [] \<Rightarrow> newSet (acceptLanguageCodes env (accept_language req)) = []
            | c # cs \<Rightarrow> newSet (acceptLanguageCodes env (accept_language req)) =
                         c # newSet (removeAll c cs))"
proof -
  let ?langs = "newSet (acceptLanguageCodes env (accept_language req))"
  have r: "fst (fetchReadme env ow rp (params_version req) ?langs) = Inr (firstReadme readmeList)"
    using rs by (rule fetchReadme_result)
  have h: "fst (handler env req) =
        Success \<lparr>data_tooth = getToothPath toothMetadata,
                 data_version = getVersion toothMetadata,
                 data_name = getName toothMetadata,
                 data_description = getDescription toothMetadata,
                 data_author = getAuthor toothMetadata,
                 data_available_versions = versionList,
                 data_readme = firstReadme readmeList,
                 data_tags = getTags toothMetadata,
                 data_dependencies = getDependencies toothMetadata\<rparr>"
    by (simp add: handler_def tp vv md vl r Let_def)
  have o: "(case acceptLanguageCodes env (accept_language req) of
              [] \<Rightarrow> ?langs = []
            | c # cs \<Rightarrow> ?langs = c # newSet (removeAll c cs))"
    by (cases "acceptLanguageCodes env (accept_language req)")
       (simp_all add: newSet_Cons, simp add: newSet_def)
  show ?thesis
    using h o firstReadme_filter[of readmeList] firstReadme_all_None[of readmeList]
      fetchReadme_requests[of env ow rp "params_version req" ?langs]
      newSet_distinct[of "acceptLanguageCodes env (accept_language req)"]
      newSet_set[of "acceptLanguageCodes env (accept_language req)"]
    by simp
qed

theorem readme_fallback_witness:
  "TOOTH_PATH_REGEXP_exec ''github.com/futrime/better-things'' = Some (''futrime'', ''better-things'') \<and>
   isValidVersionString demoEnv ''1.0.0'' \<and> isValidVersionString demoEnv ''1.1.0'' \<and>
   newSet (acceptLanguageCodes demoEnv (Some ''zh-CN,en;q=0.8,zh;q=0.5'')) = [''zh'', ''en''] \<and>
   (\<exists>d. fst (handler demoEnv \<lparr>params_tooth = ''github.com/futrime/better-things'',
                                params_version = ''1.0.0'',
                                accept_language = Some ''zh-CN,en;q=0.8,zh;q=0.5''\<rparr>) = Success d \<and>
        data_readme d = Some ''# Better Things'') \<and>
   (\<exists>d. fst (handler demoEnv \<lparr>params_tooth = ''github.com/futrime/better-things'',
                                params_version = ''1.1.0'',
                                accept_language = Some ''zh-CN,en;q=0.8,zh;q=0.5''\<rparr>) = Success d \<and>
        data_readme d = None)"
proof -
  let ?h = "Some ''zh-CN,en;q=0.8,zh;q=0.5''"
  let ?req1 = "\<lparr>params_tooth = ''github.com/futrime/better-things'', params_version = ''1.0.0'',
                accept_language = ?h\<rparr>"
  let ?req2 = "\<lparr>params_tooth = ''github.com/futrime/better-things'', params_version = ''1.1.0'',
                accept_language = ?h\<rparr>"
  have tp: "TOOTH_PATH_REGEXP_exec ''github.com/futrime/better-things'' = Some (''futrime'', ''better-things'')"
    by code_simp
  have vv: "isValidVersionString demoEnv ''1.0.0''" "isValidVersionString demoEnv ''1.1.0''"
    by code_simp+
  have ns: "newSet (acceptLanguageCodes demoEnv ?h) = [''zh'', ''en'']"
    by code_simp
  have md: "fst (fetchToothMetadata demoEnv ''futrime'' ''better-things'' ''1.0.0'') = Inr demoMetadata"
    "fst (fetchToothMetadata demoEnv ''futrime'' ''better-things'' ''1.1.0'') = Inr demoMetadata"
    by code_simp+
  have vl: "fst (fetchVersionList demoEnv ''futrime'' ''better-things'') = Inr [''1.0.0'', ''1.1.0'']"
    by code_simp
  have r1: "map (\<lambda>lang. fst (fetchReadmeForLang demoEnv ''futrime'' ''better-things'' ''1.0.0'' lang))
              (map Some [''zh'', ''en''] @ [None]) = map Inr [None, Some ''# Better Things'', None]"
    by code_simp
  have r2: "map (\<lambda>lang. fst (fetchReadmeForLang demoEnv ''futrime'' ''better-things'' ''1.1.0'' lang))
              (map Some [''zh'', ''en''] @ [None]) = map Inr [None, None, None]"
    by code_simp
  have a: "\<exists>d. fst (handler demoEnv ?req1) = Success d \<and> data_readme d = Some ''# Better Things''"
    using readme_fallback[of ?req1 "''futrime''" "''better-things''" demoEnv demoMetadata
        "[''1.0.0'', ''1.1.0'']" "[None, Some ''# Better Things'', None]"]
      tp vv md vl r1 ns
    by auto
  have b: "\<exists>d. fst (handler demoEnv ?req2) = Success d \<and> data_readme d = None"
    using readme_fallback[of ?req2 "''futrime''" "''better-things''" demoEnv demoMetadata
        "[''1.0.0'', ''1.1.0'']" "[None, None, None]"]
      tp vv md vl r2 ns
    by auto
  from tp vv ns a b show ?thesis by blast
qed

subsection \<open>Requests that are refused\<close>

text \<open>A request whose tooth path the regular expression does not match, or whose version
  \<^verbatim>\<open>isValidVersionString\<close> refuses, is answered with 400 and its message, and nothing is
  requested upstream.\<close>

lemma invalid_requests_rejected:
  "(TOOTH_PATH_REGEXP_exec (params_tooth req) = None \<longrightarrow>
      handler env req = (Failure 400 ''Invalid parameter - tooth.'', [])) \<and>
   (TOOTH_PATH_REGEXP_exec (params_tooth req) \<noteq> None \<and> \<not> isValidVersionString env (params_version req) \<longrightarrow>
      handler env req = (Failure 400 ''Invalid parameter - version.'', []))"
  by (auto simp: handler_def)

text \<open>
  Claim C8 says that a tooth path which is not of the format \<^verbatim>\<open>github.com/<owner>/<repo>\<close>
  is answered with 400 and that nothing is then requested upstream. The handler does
  otherwise for \<^verbatim>\<open>githubXcom/futrime/better-things\<close>: the unescaped dot of the regular
  expression matches the \<open>X\<close>, the three upstream requests are made, and the response is a
  success.
\<close>

theorem tooth_path_dot_accepted:
  "\<not> identifierFormat ''githubXcom/futrime/better-things'' \<and>
   TOOTH_PATH_REGEXP_exec ''githubXcom/futrime/better-things'' = Some (''futrime'', ''better-things'') \<and>
   handler demoEnv \<lparr>params_tooth = ''githubXcom/futrime/better-things'', params_version = ''1.0.0'',
                    accept_language = None\<rparr> =
     (Success \<lparr>data_tooth = ''github.com/futrime/better-things'',
               data_version = ''1.0.0'',
               data_name = ''Better Things'',
               data_description = ''More blocks'',
               data_author = ''futrime'',
               data_available_versions = [''1.0.0'', ''1.1.0''],
               data_readme = None,
               data_tags = [''type:mod''],
               data_dependencies = []\<rparr>,
      [''https://raw.githubusercontent.com/futrime/better-things/v1.0.0/tooth.json'',
       ''https://raw.githubusercontent.com/futrime/better-things/v1.0.0/README.md'',
       ''https://goproxy.io/github.com/futrime/better-things/@v/list''])"
  by code_simp

end
